theory Spec2Isabelle
  imports Main
begin

section \<open>Values\<close>

text \<open>
  JSON values as the caching coordinator sees them after decoding, plus \<open>undefined\<close>.
  Numbers are modelled as integers; times are integer milliseconds, durations of the
  cache-control record are integer seconds.
\<close>

datatype jsval =
    JUndefined
  | JNull
  | JBool bool
  | JNum int
  | JStr string
  | JArr "jsval list"
  | JObj "(string \<times> jsval) list"

text \<open>JavaScript truthiness, as used by \<open>!value\<close> and \<open>!!value\<close>.\<close>

fun truthy :: "jsval \<Rightarrow> bool" where
  "truthy JUndefined = False"
| "truthy JNull = False"
| "truthy (JBool b) = b"
| "truthy (JNum n) = (n \<noteq> 0)"
| "truthy (JStr s) = (s \<noteq> [])"
| "truthy (JArr _) = True"
| "truthy (JObj _) = True"

section \<open>Strings\<close>

text \<open>
  A string is a list of characters, one per code unit; header names and values are byte
  strings, so every character is below 256. \<open>asciiLower\<close> is the byte-lowercasing of
  header names, \<open>toLowerCase\<close> is \<open>String.prototype.toLowerCase\<close> on that range
  (the letters of Latin-1 included), \<open>trim\<close> is \<open>String.prototype.trim\<close> and
  \<open>split\<close> is \<open>String.prototype.split\<close> with a one-character separator.
\<close>

definition asciiLowerChar :: "char \<Rightarrow> char" where
  "asciiLowerChar c =
     (let n = (of_char c :: nat) in if 65 \<le> n \<and> n \<le> 90 then char_of (n + 32) else c)"

definition asciiLower :: "string \<Rightarrow> string" where
  "asciiLower s = map asciiLowerChar s"

definition toLowerCaseChar :: "char \<Rightarrow> char" where
  "toLowerCaseChar c =
     (let n = (of_char c :: nat) in
      if (65 \<le> n \<and> n \<le> 90) \<or> (192 \<le> n \<and> n \<le> 222 \<and> n \<noteq> 215)
      then char_of (n + 32) else c)"

definition toLowerCase :: "string \<Rightarrow> string" where
  "toLowerCase s = map toLowerCaseChar s"

definition isWhiteSpace :: "char \<Rightarrow> bool" where
  "isWhiteSpace c = ((of_char c :: nat) \<in> {9, 10, 11, 12, 13, 32, 160})"

definition trim :: "string \<Rightarrow> string" where
  "trim s = rev (dropWhile isWhiteSpace (rev (dropWhile isWhiteSpace s)))"

fun split :: "char \<Rightarrow> string \<Rightarrow> string list" where
  "split sep [] = [[]]"
| "split sep (c # cs) =
     (if c = sep then [] # split sep cs
      else (case split sep cs of [] \<Rightarrow> [[c]] | p # ps \<Rightarrow> (c # p) # ps))"

fun joinWith :: "string \<Rightarrow> string list \<Rightarrow> string" where
  "joinWith sep [] = []"
| "joinWith sep [x] = x"
| "joinWith sep (x # y # zs) = x @ sep @ joinWith sep (y # zs)"

text \<open>Code-unit order on strings, the order in which a \<open>Headers\<close> object iterates.\<close>

fun strLess :: "string \<Rightarrow> string \<Rightarrow> bool" where
  "strLess [] [] = False"
| "strLess [] (y # ys) = True"
| "strLess (x # xs) [] = False"
| "strLess (x # xs) (y # ys) =
     ((of_char x :: nat) < of_char y \<or> (x = y \<and> strLess xs ys))"

fun insertSorted :: "string \<Rightarrow> string list \<Rightarrow> string list" where
  "insertSorted x [] = [x]"
| "insertSorted x (y # ys) = (if strLess y x then y # insertSorted x ys else x # y # ys)"

definition sortNames :: "string list \<Rightarrow> string list" where
  "sortNames xs = foldr insertSorted xs []"

section \<open>The Headers object\<close>

text \<open>
  A \<open>Headers\<close> object is its header list: the (name, value) pairs in the order they
  were appended. Names match case-insensitively; \<open>get\<close> joins the values of a name with
  a comma and a space; \<open>append\<close> strips leading and trailing HTTP whitespace from the
  value and reuses the spelling of a name that is already in the list; iteration
  (\<open>forEach\<close>, and copying with \<open>new Headers(h)\<close>) goes through the lowercased names in
  sorted order with the values of each name combined, those of \<open>set-cookie\<close> one by one.
  Names and values are taken to be valid, so that \<open>append\<close> does not throw.
\<close>

type_synonym headers = "(string \<times> string) list"

definition nameEq :: "string \<Rightarrow> string \<Rightarrow> bool" where
  "nameEq a b = (asciiLower a = asciiLower b)"

definition valuesOf :: "headers \<Rightarrow> string \<Rightarrow> string list" where
  "valuesOf h name = map snd (filter (\<lambda>p. nameEq (fst p) name) h)"

definition Headers_has :: "headers \<Rightarrow> string \<Rightarrow> bool" where
  "Headers_has h name = (valuesOf h name \<noteq> [])"

definition Headers_get :: "headers \<Rightarrow> string \<Rightarrow> string option" where
  "Headers_get h name =
     (if valuesOf h name = [] then None else Some (joinWith '', '' (valuesOf h name)))"

definition isHttpWhitespace :: "char \<Rightarrow> bool" where
  "isHttpWhitespace c = ((of_char c :: nat) \<in> {9, 10, 13, 32})"

definition normalizeValue :: "string \<Rightarrow> string" where
  "normalizeValue v = rev (dropWhile isHttpWhitespace (rev (dropWhile isHttpWhitespace v)))"

definition Headers_append :: "headers \<Rightarrow> string \<Rightarrow> string \<Rightarrow> headers" where
  "Headers_append h name v =
     (let name1 = (case filter (\<lambda>p. nameEq (fst p) name) h of
                     [] \<Rightarrow> name | p # _ \<Rightarrow> fst p)
      in h @ [(name1, normalizeValue v)])"

definition Headers_delete :: "headers \<Rightarrow> string \<Rightarrow> headers" where
  "Headers_delete h name = filter (\<lambda>p. \<not> nameEq (fst p) name) h"

definition Headers_entries :: "headers \<Rightarrow> (string \<times> string) list" where
  "Headers_entries h =
     concat (map (\<lambda>n. if n = ''set-cookie'' then map (\<lambda>v. (n, v)) (valuesOf h n)
                        else [(n, joinWith '', '' (valuesOf h n))])
                 (sortNames (remdups (map (\<lambda>p. asciiLower (fst p)) h))))"

text \<open>
  \<open>HeadersInit\<close>: a \<open>Headers\<close> object, or the pairs of an array or of a record (a
  record property that is \<open>undefined\<close> arrives as the string \<open>undefined\<close>).
\<close>

datatype HeadersInit = OfHeaders headers | OfPairs "(string \<times> string) list"

definition Headers_fill :: "headers \<Rightarrow> (string \<times> string) list \<Rightarrow> headers" where
  "Headers_fill h ps = foldl (\<lambda>acc p. Headers_append acc (fst p) (snd p)) h ps"

fun Headers_new :: "HeadersInit \<Rightarrow> headers" where
  "Headers_new (OfHeaders h) = Headers_fill [] (Headers_entries h)"
| "Headers_new (OfPairs ps) = Headers_fill [] ps"

section \<open>Cache-control records (client.ts, CacheControl)\<close>

text \<open>
  \<open>maxAge\<close>, \<open>staleWhileRevalidate\<close> and \<open>staleIfError\<close> are \<open>Seconds|boolean\<close>;
  every property is optional. Each field is the value that reading the property gives,
  \<open>None\<close> for \<open>undefined\<close>. A property that reads as \<open>undefined\<close> is absent, or
  present with the value \<open>undefined\<close>; \<open>undefinedProperties\<close> holds the properties
  of the second kind, which \<open>Object.assign\<close> copies like any other. A number of seconds
  is an integer or positive infinity, which the parser produces for a number too large
  for a double.
\<close>

datatype seconds_or_bool = Secs int | Flag bool | SecsInfinity

datatype cc_property =
  MaxAge | NoCache | NoStore | MustRevalidate | StaleWhileRevalidate | StaleIfError

record CacheControl =
  maxAge :: "seconds_or_bool option"
  noCache :: "bool option"
  noStore :: "bool option"
  mustRevalidate :: "bool option"
  staleWhileRevalidate :: "seconds_or_bool option"
  staleIfError :: "seconds_or_bool option"
  undefinedProperties :: "cc_property set"

definition emptyCacheControl :: CacheControl where
  "emptyCacheControl =
     \<lparr>maxAge = None, noCache = None, noStore = None, mustRevalidate = None,
      staleWhileRevalidate = None, staleIfError = None, undefinedProperties = {}\<rparr>"

fun definedProperty :: "CacheControl \<Rightarrow> cc_property \<Rightarrow> bool" where
  "definedProperty c MaxAge = (maxAge c \<noteq> None)"
| "definedProperty c NoCache = (noCache c \<noteq> None)"
| "definedProperty c NoStore = (noStore c \<noteq> None)"
| "definedProperty c MustRevalidate = (mustRevalidate c \<noteq> None)"
| "definedProperty c StaleWhileRevalidate = (staleWhileRevalidate c \<noteq> None)"
| "definedProperty c StaleIfError = (staleIfError c \<noteq> None)"

text \<open>Truthiness of an optional boolean and of an optional \<open>Seconds|boolean\<close>.\<close>

definition isTrue :: "bool option \<Rightarrow> bool" where
  "isTrue b = (b = Some True)"

fun truthySB :: "seconds_or_bool option \<Rightarrow> bool" where
  "truthySB None = False"
| "truthySB (Some (Flag b)) = b"
| "truthySB (Some (Secs n)) = (n \<noteq> 0)"
| "truthySB (Some SecsInfinity) = True"

text \<open>
  \<open>Object.assign(target, source)\<close>: a property present in the source overwrites, also
  when its value is \<open>undefined\<close>. \<open>laterWins u a b\<close> is the value of a property after
  the assignment, for the value \<open>a\<close> in the target and \<open>b\<close> in the source, where \<open>u\<close>
  tells whether the source holds the property with the value \<open>undefined\<close>.
\<close>

definition laterWins :: "bool \<Rightarrow> 'a option \<Rightarrow> 'a option \<Rightarrow> 'a option" where
  "laterWins u a b = (case b of None \<Rightarrow> (if u then None else a) | Some v \<Rightarrow> Some v)"

definition assign :: "CacheControl \<Rightarrow> CacheControl \<Rightarrow> CacheControl" where
  "assign t s =
     \<lparr>maxAge = laterWins (MaxAge \<in> undefinedProperties s) (maxAge t) (maxAge s),
      noCache = laterWins (NoCache \<in> undefinedProperties s) (noCache t) (noCache s),
      noStore = laterWins (NoStore \<in> undefinedProperties s) (noStore t) (noStore s),
      mustRevalidate =
        laterWins (MustRevalidate \<in> undefinedProperties s) (mustRevalidate t) (mustRevalidate s),
      staleWhileRevalidate =
        laterWins (StaleWhileRevalidate \<in> undefinedProperties s)
          (staleWhileRevalidate t) (staleWhileRevalidate s),
      staleIfError =
        laterWins (StaleIfError \<in> undefinedProperties s) (staleIfError t) (staleIfError s),
      undefinedProperties =
        Set.filter
          (\<lambda>p. \<not> definedProperty s p \<and> (p \<in> undefinedProperties s \<or> \<not> definedProperty t p))
          (undefinedProperties t \<union> undefinedProperties s)\<rparr>"

text \<open>A source that is \<open>undefined\<close> is skipped by \<open>Object.assign\<close>.\<close>

definition assignOpt :: "CacheControl \<Rightarrow> CacheControl option \<Rightarrow> CacheControl" where
  "assignOpt t s = (case s of None \<Rightarrow> t | Some c \<Rightarrow> assign t c)"

text \<open>
  The first lines of \<open>CachingClient._cacheState\<close>: defaults, then the record of the
  cached result, then the forced record, assigned in this order onto an empty object.
\<close>

definition effectiveCacheControl ::
  "CacheControl option \<Rightarrow> CacheControl option \<Rightarrow> CacheControl option \<Rightarrow> CacheControl" where
  "effectiveCacheControl defaultCacheControl resultCacheControl forcedCacheControl =
     assignOpt (assignOpt (assignOpt emptyCacheControl defaultCacheControl) resultCacheControl)
       forcedCacheControl"

section \<open>Freshness evaluator (CachingClient._cacheState)\<close>

datatype CacheStateCore = DISABLED | FRESH | STALE

record CacheState =
  state :: CacheStateCore
  stMustRevalidate :: "bool option"
  stStaleWhileRevalidate :: "bool option"
  stStaleIfError :: "bool option"

definition plainState :: "CacheStateCore \<Rightarrow> CacheState" where
  "plainState c =
     \<lparr>state = c, stMustRevalidate = None, stStaleWhileRevalidate = None, stStaleIfError = None\<rparr>"

text \<open>\<open>maxAge === false || maxAge <= 0\<close>; \<open>true <= 0\<close> and \<open>undefined <= 0\<close> are false.\<close>

fun maxAgeNonPositive :: "seconds_or_bool option \<Rightarrow> bool" where
  "maxAgeNonPositive None = False"
| "maxAgeNonPositive (Some (Flag b)) = (\<not> b)"
| "maxAgeNonPositive (Some (Secs n)) = (n \<le> 0)"
| "maxAgeNonPositive (Some SecsInfinity) = False"

text \<open>
  \<open>updated + maxAge * 1000\<close>: \<open>false\<close> counts as 0, \<open>true\<close> as 1; \<open>None\<close> is
  infinity.
\<close>

fun validUntilOf :: "int \<Rightarrow> seconds_or_bool \<Rightarrow> int option" where
  "validUntilOf updatedAt (Secs n) = Some (updatedAt + n * 1000)"
| "validUntilOf updatedAt (Flag b) = Some (updatedAt + (if b then 1 else 0) * 1000)"
| "validUntilOf updatedAt SecsInfinity = None"

text \<open>
  The relaxations of a stale entry. \<open>staleWhileRevalidate\<close> is looked at only when it is
  truthy, \<open>staleIfError\<close> whenever it is defined.
\<close>

fun relaxWhileRevalidate :: "int \<Rightarrow> int \<Rightarrow> seconds_or_bool option \<Rightarrow> bool option" where
  "relaxWhileRevalidate now validUntil None = None"
| "relaxWhileRevalidate now validUntil (Some (Flag b)) = (if b then Some b else None)"
| "relaxWhileRevalidate now validUntil (Some (Secs n)) =
     (if n \<noteq> 0 then Some (validUntil + n * 1000 \<ge> now) else None)"
| "relaxWhileRevalidate now validUntil (Some SecsInfinity) = Some True"

fun relaxIfError :: "int \<Rightarrow> int \<Rightarrow> seconds_or_bool option \<Rightarrow> bool option" where
  "relaxIfError now validUntil None = None"
| "relaxIfError now validUntil (Some (Flag b)) = Some b"
| "relaxIfError now validUntil (Some (Secs n)) = Some (validUntil + n * 1000 \<ge> now)"
| "relaxIfError now validUntil (Some SecsInfinity) = Some True"

text \<open>
  \<open>cacheState now updated cc d f\<close> is \<open>_cacheState({updated, cacheControl: cc},
  {defaultCacheControl: d, forcedCacheControl: f})\<close> when \<open>Date.now()\<close> returns \<open>now\<close>.
\<close>

definition cacheState ::
  "int \<Rightarrow> int \<Rightarrow> CacheControl option \<Rightarrow> CacheControl option \<Rightarrow> CacheControl option
     \<Rightarrow> CacheState" where
  "cacheState now updatedAt resultCacheControl defaultCacheControl forcedCacheControl =
     (let eff = effectiveCacheControl defaultCacheControl resultCacheControl forcedCacheControl in
      if isTrue (noStore eff) then plainState DISABLED
      else
        let maxAge0 = maxAge eff;
            eff1 = (if maxAgeNonPositive maxAge0 \<and> isTrue (mustRevalidate eff)
                    then eff\<lparr>noCache := Some True\<rparr> else eff)
        in
        if isTrue (noCache eff1) then (plainState STALE)\<lparr>stMustRevalidate := Some True\<rparr>
        else
          (case maxAge0 of
             None \<Rightarrow> plainState FRESH
           | Some (Flag True) \<Rightarrow> plainState FRESH
           | Some m \<Rightarrow>
               (case validUntilOf updatedAt m of
                  None \<Rightarrow> plainState FRESH
                | Some validUntil \<Rightarrow>
                    if now \<le> validUntil then plainState FRESH
                    else if isTrue (mustRevalidate eff1)
                      then (plainState STALE)\<lparr>stMustRevalidate := Some True\<rparr>
                    else (plainState STALE)
                           \<lparr>stStaleWhileRevalidate :=
                               relaxWhileRevalidate now validUntil (staleWhileRevalidate eff1),
                            stStaleIfError :=
                               relaxIfError now validUntil (staleIfError eff1)\<rparr>)))"

section \<open>The in-memory cache (MemoryCache)\<close>

record CachedObject =
  key :: string
  updated :: int
  val :: jsval
  headers :: headers
  cacheControl :: "CacheControl option"

text \<open>
  A JavaScript \<open>Map\<close> keeps its keys in insertion order: \<open>set\<close> on a key that is
  present replaces the entry where it stands, \<open>set\<close> on a new key appends.
\<close>

type_synonym 'a jsmap = "(string \<times> 'a) list"

definition Map_get :: "'a jsmap \<Rightarrow> string \<Rightarrow> 'a option" where
  "Map_get m k = map_of m k"

definition Map_has :: "'a jsmap \<Rightarrow> string \<Rightarrow> bool" where
  "Map_has m k = (k \<in> fst ` set m)"

definition Map_set :: "'a jsmap \<Rightarrow> string \<Rightarrow> 'a \<Rightarrow> 'a jsmap" where
  "Map_set m k v =
     (if Map_has m k then map (\<lambda>p. if fst p = k then (k, v) else p) m else m @ [(k, v)])"

definition Map_delete :: "'a jsmap \<Rightarrow> string \<Rightarrow> 'a jsmap" where
  "Map_delete m k = filter (\<lambda>p. fst p \<noteq> k) m"

text \<open>
  \<open>MemoryCacheConfig\<close> and the private fields of \<open>MemoryCache\<close>. The constructor keeps
  \<open>maxItems\<close> only when it is positive and \<open>deepCopy\<close> only when \<open>cloneItems\<close> is set.
\<close>

record MemoryCacheConfig =
  cfgMaxItems :: "int option"
  cfgCloneItems :: "bool option"
  cfgDeepCopy :: "(jsval \<Rightarrow> jsval) option"

record MemoryCache =
  cache :: "CachedObject jsmap"
  maxItems :: "int option"
  deepCopy :: "(jsval \<Rightarrow> jsval) option"

definition MemoryCache_new :: "MemoryCacheConfig \<Rightarrow> MemoryCache" where
  "MemoryCache_new config =
     \<lparr>cache = [],
      maxItems = (case cfgMaxItems config of
                    Some n \<Rightarrow> if n > 0 then Some n else None | None \<Rightarrow> None),
      deepCopy = (if isTrue (cfgCloneItems config) then cfgDeepCopy config else None)\<rparr>"

text \<open>\<open>get(key)\<close>: the entry, with value, headers and cache-control record copied when cloning.\<close>

definition MemoryCache_get :: "MemoryCache \<Rightarrow> string \<Rightarrow> CachedObject option" where
  "MemoryCache_get c k =
     (case Map_get (cache c) k of
        None \<Rightarrow> None
      | Some e \<Rightarrow>
          (case deepCopy c of
             Some copy \<Rightarrow>
               Some (e\<lparr>val := copy (val e), headers := Headers_new (OfHeaders (headers e))\<rparr>)
           | None \<Rightarrow> Some e))"

text \<open>
  \<open>set(key, value, headers, cacheControl)\<close> with \<open>Date.now() = now\<close>: the boolean the
  promise resolves to, and the cache afterwards. When the cache is full, the oldest key
  is dropped first.
\<close>

definition MemoryCache_set ::
  "MemoryCache \<Rightarrow> int \<Rightarrow> string \<Rightarrow> jsval \<Rightarrow> headers \<Rightarrow> CacheControl option
     \<Rightarrow> bool \<times> MemoryCache" where
  "MemoryCache_set c now k v h cc =
     (if k = [] \<or> v = JUndefined then (False, c)
      else
        let m1 = (case maxItems c of
                    Some n \<Rightarrow>
                      if n \<noteq> 0 \<and> int (length (cache c)) \<ge> n
                      then (case cache c of [] \<Rightarrow> cache c | p # _ \<Rightarrow> Map_delete (cache c) (fst p))
                      else cache c
                  | None \<Rightarrow> cache c);
            value1 = (case deepCopy c of Some copy \<Rightarrow> copy v | None \<Rightarrow> v)
        in (True,
            c\<lparr>cache := Map_set m1 k
                 \<lparr>key = k, updated = now, val = value1,
                  headers = Headers_new (OfHeaders h), cacheControl = cc\<rparr>\<rparr>))"

definition MemoryCache_delete :: "MemoryCache \<Rightarrow> string \<Rightarrow> bool \<times> MemoryCache" where
  "MemoryCache_delete c k = (Map_has (cache c) k, c\<lparr>cache := Map_delete (cache c) k\<rparr>)"

definition MemoryCache_clear :: "MemoryCache \<Rightarrow> nat \<times> MemoryCache" where
  "MemoryCache_clear c = (length (cache c), c\<lparr>cache := []\<rparr>)"

section \<open>The registry of cache providers (cache.ts, registerCacheProvider)\<close>

text \<open>
  \<open>factoryLoaders\<close> is a plain object from provider ids to loaders. Loaders are compared by
  identity; \<open>'l\<close> is the type of these identities. The \<open>in\<close> operator also finds the
  members that every plain object inherits from \<open>Object.prototype\<close>; such a member is a
  function that differs from every loader.
\<close>

type_synonym 'l registry = "string \<rightharpoonup> 'l"

definition objectPrototypeKeys :: "string list" where
  "objectPrototypeKeys =
     [''constructor'', ''hasOwnProperty'', ''isPrototypeOf'', ''propertyIsEnumerable'',
      ''toLocaleString'', ''toString'', ''valueOf'', ''__defineGetter__'',
      ''__defineSetter__'', ''__lookupGetter__'', ''__lookupSetter__'', ''__proto__'']"

datatype 'l member = Loader 'l | Inherited string

definition member_in :: "string \<Rightarrow> 'l registry \<Rightarrow> bool" where
  "member_in k reg = (reg k \<noteq> None \<or> k \<in> set objectPrototypeKeys)"

definition member_get :: "'l registry \<Rightarrow> string \<Rightarrow> 'l member option" where
  "member_get reg k =
     (case reg k of
        Some l \<Rightarrow> Some (Loader l)
      | None \<Rightarrow> if k \<in> set objectPrototypeKeys then Some (Inherited k) else None)"

datatype register_error =
    InvalidCharacterAtPosition0 string
  | ProviderIdTooLong string
  | AlreadyRegistered string

text \<open>\<open>/[a-zA-Z]/.test(providerId.charAt(0))\<close>; \<open>charAt(0)\<close> of the empty string is empty.\<close>

definition isAsciiLetter :: "char \<Rightarrow> bool" where
  "isAsciiLetter c =
     (let n = (of_char c :: nat) in (65 \<le> n \<and> n \<le> 90) \<or> (97 \<le> n \<and> n \<le> 122))"

definition firstCharIsLetter :: "string \<Rightarrow> bool" where
  "firstCharIsLetter s = (case s of [] \<Rightarrow> False | c # _ \<Rightarrow> isAsciiLetter c)"

definition registerCacheProvider ::
  "'l registry \<Rightarrow> string \<Rightarrow> 'l \<Rightarrow> register_error + 'l registry" where
  "registerCacheProvider factoryLoaders providerId loader =
     (if \<not> firstCharIsLetter providerId then Inl (InvalidCharacterAtPosition0 providerId)
      else if length providerId > 64 then Inl (ProviderIdTooLong providerId)
      else if member_in providerId factoryLoaders then
        (if Some (Loader loader) \<noteq> member_get factoryLoaders providerId
         then Inl (AlreadyRegistered providerId)
         else Inr factoryLoaders)
      else Inr (factoryLoaders(providerId \<mapsto> loader)))"

text \<open>
  The language of the regular expression of the specification,
  \<open>/^[A-Za-z][A-Za-z0-9_-]{0,63}$/\<close>, for comparison with the check of the code.
\<close>

definition isIdChar :: "char \<Rightarrow> bool" where
  "isIdChar c =
     (let n = (of_char c :: nat) in
      isAsciiLetter c \<or> (48 \<le> n \<and> n \<le> 57) \<or> c = CHR ''_'' \<or> c = CHR ''-'')"

definition matchesProviderIdPattern :: "string \<Rightarrow> bool" where
  "matchesProviderIdPattern s =
     (case s of [] \<Rightarrow> False
      | c # cs \<Rightarrow> isAsciiLetter c \<and> length cs \<le> 63 \<and> list_all isIdChar cs)"

section \<open>Cache-control parser (CachingClient._evaluateCacheControl)\<close>

text \<open>
  The numbers that \<open>parseInt\<close> returns are doubles with an integer value, or an
  infinity, or NaN. \<open>number\<close> is such a double other than NaN. \<open>numberOfInt i\<close> is the
  double for the mathematical integer \<open>i\<close>: \<open>i\<close> itself below \<open>2^53\<close>, above that
  the nearest integer with 53 significant bits (ties to the even one), and an infinity
  when that is \<open>2^1024\<close> or more. It is also the result of subtracting two such
  doubles, applied to the exact difference.
\<close>

datatype number = Finite int | PosInfinity | NegInfinity

function bitLength :: "int \<Rightarrow> nat" where
  "bitLength n = (if n \<le> 0 then 0 else Suc (bitLength (n div 2)))"
  by pat_completeness auto
termination
  by (relation "measure nat") auto

declare bitLength.simps [simp del]

definition roundToDouble :: "int \<Rightarrow> int" where
  "roundToDouble m =
     (if m < 2 ^ 53 then m
      else
        let e = bitLength m - 53;
            q = m div 2 ^ e;
            r = m mod 2 ^ e;
            half = 2 ^ (e - 1)
        in (if r > half \<or> (r = half \<and> odd q) then q + 1 else q) * 2 ^ e)"

definition numberOfInt :: "int \<Rightarrow> number" where
  "numberOfInt i =
     (let m = roundToDouble \<bar>i\<bar> in
      if m \<ge> 2 ^ 1024 then (if i < 0 then NegInfinity else PosInfinity)
      else Finite (if i < 0 then - m else m))"

text \<open>
  \<open>parseInt(s, 10)\<close>: leading white space, an optional sign, then the longest prefix of
  decimal digits, converted to a double; \<open>None\<close> is NaN (no digit). All digits
  count (the language standard also allows an implementation to read the digits after
  the twentieth as zeros).
\<close>

definition isDigit :: "char \<Rightarrow> bool" where
  "isDigit c = (let n = (of_char c :: nat) in 48 \<le> n \<and> n \<le> 57)"

definition digitsValue :: "string \<Rightarrow> int" where
  "digitsValue ds = foldl (\<lambda>acc c. acc * 10 + (int (of_char c) - 48)) 0 ds"

definition parseInt :: "string \<Rightarrow> number option" where
  "parseInt s =
     (let t = dropWhile isWhiteSpace s;
          neg = (case t of [] \<Rightarrow> False | c # _ \<Rightarrow> c = CHR ''-'');
          u = (case t of [] \<Rightarrow> [] | c # r \<Rightarrow> if c = CHR ''-'' \<or> c = CHR ''+'' then r else t);
          ds = takeWhile isDigit u
      in if ds = [] then None
         else Some (numberOfInt (if neg then - digitsValue ds else digitsValue ds)))"

text \<open>\<open>parseInt(headers.get(name), 10)\<close>; a missing header is \<open>null\<close>, which is NaN.\<close>

definition parseIntHeader :: "headers \<Rightarrow> string \<Rightarrow> number option" where
  "parseIntHeader h name = (case Headers_get h name of None \<Rightarrow> None | Some s \<Rightarrow> parseInt s)"

text \<open>
  \<open>_parseExpireHeader\<close>. Parsing a date string is left to the platform: \<open>parseDate\<close>
  gives the time in milliseconds, or \<open>None\<close> when the date is invalid. \<open>Math.round\<close>
  rounds halves up.
\<close>

definition mathRoundDiv1000 :: "int \<Rightarrow> int" where
  "mathRoundDiv1000 d = (d + 500) div 1000"

definition parseExpireHeader ::
  "(string \<Rightarrow> int option) \<Rightarrow> int \<Rightarrow> headers \<Rightarrow> CacheControl option" where
  "parseExpireHeader parseDate now h =
     (case Headers_get h ''Expires'' of
        None \<Rightarrow> None
      | Some e \<Rightarrow>
          (case parseDate e of
             None \<Rightarrow> None
           | Some expiryDate \<Rightarrow>
               Some (emptyCacheControl
                 \<lparr>maxAge := Some (Secs (max 0 (mathRoundDiv1000 (expiryDate - now))))\<rparr>)))"

text \<open>
  The directives object: the header in lower case, split at commas, each entry split at
  \<open>=\<close> and trimmed; entries with more than one \<open>=\<close> are dropped, an entry without
  \<open>=\<close> has the value \<open>true\<close>. \<open>Object.fromEntries\<close> lets the last entry of a key win.
\<close>

datatype directive = DTrue | DStr string

definition splitEntries :: "string \<Rightarrow> string list list" where
  "splitEntries ccHeader =
     filter (\<lambda>entry. length entry \<le> 2)
       (map (\<lambda>entry. map trim (split CHR ''='' entry))
          (split CHR '','' (toLowerCase ccHeader)))"

definition entryPair :: "string list \<Rightarrow> string \<times> directive" where
  "entryPair entry =
     (case entry of [k] \<Rightarrow> (k, DTrue) | k # v # _ \<Rightarrow> (k, DStr v) | [] \<Rightarrow> ([], DTrue))"

definition directiveEntries :: "string \<Rightarrow> (string \<times> directive) list" where
  "directiveEntries ccHeader = map entryPair (splitEntries ccHeader)"

definition directiveOf :: "string \<Rightarrow> string \<Rightarrow> directive option" where
  "directiveOf ccHeader k = map_of (rev (directiveEntries ccHeader)) k"

fun truthyDirective :: "directive option \<Rightarrow> bool" where
  "truthyDirective None = False"
| "truthyDirective (Some DTrue) = True"
| "truthyDirective (Some (DStr s)) = (s \<noteq> [])"

text \<open>\<open>parseInt(directives[k] as string, 10)\<close>: \<open>undefined\<close> and \<open>true\<close> give NaN.\<close>

fun parseIntDirective :: "directive option \<Rightarrow> number option" where
  "parseIntDirective None = None"
| "parseIntDirective (Some DTrue) = None"
| "parseIntDirective (Some (DStr s)) = parseInt s"

text \<open>\<open>if (maxAge <= 0) maxAge = 0\<close>, then the value stored as \<open>maxAge\<close>.\<close>

fun floorAtZero :: "number \<Rightarrow> seconds_or_bool" where
  "floorAtZero (Finite m) = Secs (if m \<le> 0 then 0 else m)"
| "floorAtZero NegInfinity = Secs 0"
| "floorAtZero PosInfinity = SecsInfinity"

text \<open>A relaxation is stored when its number is greater than 0.\<close>

fun positiveSeconds :: "number option \<Rightarrow> seconds_or_bool option" where
  "positiveSeconds (Some (Finite n)) = (if n > 0 then Some (Secs n) else None)"
| "positiveSeconds (Some PosInfinity) = Some SecsInfinity"
| "positiveSeconds (Some NegInfinity) = None"
| "positiveSeconds None = None"

definition evaluateCacheControl ::
  "(string \<Rightarrow> int option) \<Rightarrow> int \<Rightarrow> headers \<Rightarrow> CacheControl option" where
  "evaluateCacheControl parseDate now h =
     (case Headers_get h ''Cache-Control'' of
        None \<Rightarrow> parseExpireHeader parseDate now h
      | Some ccHeader \<Rightarrow>
          let r1 = (if truthyDirective (directiveOf ccHeader ''no-cache'')
                    then emptyCacheControl\<lparr>noCache := Some True\<rparr> else emptyCacheControl);
              r2 = (if truthyDirective (directiveOf ccHeader ''no-store'')
                    then r1\<lparr>noStore := Some True\<rparr> else r1);
              r3 = (if truthyDirective (directiveOf ccHeader ''must-revalidate'')
                    then r2\<lparr>mustRevalidate := Some True\<rparr> else r2);
              r4 = (case directiveOf ccHeader ''max-age'' of
                      Some d \<Rightarrow>
                        (case parseIntDirective (Some d) of
                           Some (Finite maxAge0) \<Rightarrow>
                             let maxAge1 = (case parseIntHeader h ''Age'' of
                                              Some (Finite age) \<Rightarrow> numberOfInt (maxAge0 - age)
                                            | _ \<Rightarrow> Finite maxAge0)
                             in r3\<lparr>maxAge := Some (floorAtZero maxAge1)\<rparr>
                         | _ \<Rightarrow> r3)
                    | None \<Rightarrow>
                        (case parseExpireHeader parseDate now h of
                           Some expires \<Rightarrow>
                             (case maxAge expires of
                                Some m \<Rightarrow> r3\<lparr>maxAge := Some m\<rparr> | None \<Rightarrow> r3)
                         | None \<Rightarrow> r3));
              r5 = (case positiveSeconds
                           (parseIntDirective (directiveOf ccHeader ''stale-while-revalidate'')) of
                      Some n \<Rightarrow> r4\<lparr>staleWhileRevalidate := Some n\<rparr>
                    | None \<Rightarrow> r4);
              r6 = (case positiveSeconds
                           (parseIntDirective (directiveOf ccHeader ''stale-if-error'')) of
                      Some n \<Rightarrow> r5\<lparr>staleIfError := Some n\<rparr>
                    | None \<Rightarrow> r5)
          in Some r6)"



section \<open>Default-header merge (SimpleFetchClient._mergeHeaders)\<close>

text \<open>
  The callback of \<open>newHeaders.forEach\<close>, applied to one (key, value) pair of an update:
  an empty value or the string \<open>undefined\<close> deletes the key; a value that equals, in
  lower case, one of the trimmed comma-separated entries of the existing value is
  skipped; any other value is appended.
\<close>

definition alreadyPresent :: "string option \<Rightarrow> string \<Rightarrow> bool" where
  "alreadyPresent existing v =
     (case existing of
        None \<Rightarrow> False
      | Some e \<Rightarrow>
          e \<noteq> [] \<and> list_ex (\<lambda>entry. toLowerCase (trim entry) = toLowerCase v) (split CHR '','' e))"

definition mergeEntry :: "headers \<Rightarrow> string \<times> string \<Rightarrow> headers" where
  "mergeEntry result kv =
     (if snd kv = ''undefined'' \<or> snd kv = [] then Headers_delete result (fst kv)
      else if alreadyPresent (Headers_get result (fst kv)) (snd kv) then result
      else Headers_append result (fst kv) (snd kv))"

definition asHeaders :: "HeadersInit \<Rightarrow> headers" where
  "asHeaders u = (case u of OfHeaders h \<Rightarrow> h | OfPairs ps \<Rightarrow> Headers_new (OfPairs ps))"

definition mergeHeaders :: "HeadersInit option \<Rightarrow> HeadersInit list \<Rightarrow> HeadersInit option" where
  "mergeHeaders source updates =
     (if updates = [] then source
      else Some (OfHeaders
        (foldl (\<lambda>result u. foldl mergeEntry result (Headers_entries (asHeaders u)))
           (case source of None \<Rightarrow> [] | Some s \<Rightarrow> Headers_new s)
           updates)))"

section \<open>Retry-After handling (ResilientFetchClient)\<close>







text \<open>
  What an attempt meets after the sleep: a response with its status and headers, or a
  failure before any response (the sleep was aborted, a network error, a timeout).
\<close>

datatype attempt_outcome = Responded int headers | NoResponse

record attempt_input =
  now1 :: int
  now2 :: int
  nowResponse :: int
  outcome :: attempt_outcome









section \<open>Promises, errors and the delegate client\<close>

text \<open>
  A promise is modelled by what it settles to. The errors are those the coordinator
  tells apart: \<open>NoUpdateError\<close>, an \<open>HttpError\<close> with cause \<open>responseStatus\<close> and its
  status, an \<open>HttpError\<close> with cause \<open>contentType\<close>, an error for which
  \<open>isNetworkError\<close> holds, and any other error (a timeout, an abort, ...).
\<close>

datatype err =
    NoUpdateError string
  | HttpResponseError int
  | HttpContentTypeError
  | NetworkError
  | OtherError string

datatype 'a outcome = Resolved 'a | Rejected err

record fetched =
  fvalue :: jsval
  fheaders :: headers

record response =
  respStatus :: int
  respHeaders :: headers
  respJson :: "jsval outcome"

text \<open>
  The delegate is the client below the coordinator (the resilience pipeline and the
  transport). What its \<open>fetchJson\<close> and \<open>fetch\<close> settle to is given, as a function of
  the request headers. A request is the \<open>headers\<close> of \<open>init\<close> and, when the input is a
  \<open>Request\<close>, the headers of the input.
\<close>

record delegate =
  delegateFetchJson :: "HeadersInit option \<Rightarrow> fetched outcome"
  delegateFetch :: "HeadersInit option \<Rightarrow> response outcome"

record request =
  inputHeaders :: "headers option"
  initHeaders :: "HeadersInit option"

datatype call = FetchJsonCall "HeadersInit option" | FetchCall "HeadersInit option"

section \<open>Write-through (CachingClient._updateCache)\<close>

datatype cache_mode = ModeCacheControl | ModeFetchFirst | ModeRace | ModeOther string

record CachingRequestConfig =
  ckey :: string
  cmode :: "cache_mode option"
  defaultCacheControl :: "CacheControl option"
  forcedCacheControl :: "CacheControl option"
  cupdate :: "bool option"

text \<open>
  The cache backend is any \<open>ObjectCache\<close>: \<open>backendSet s k v h cc\<close> is what
  \<open>cache.set(k, v, h, cc)\<close> settles to in the backend state \<open>s\<close>, and the state
  afterwards. \<open>updateCache\<close> gives what \<open>_updateCache\<close> resolves to and the backend state
  afterwards. The three readings of the clock are those of \<open>_parseExpireHeader\<close>, of
  \<open>_updateCache\<close> (the \<open>updated\<close> of the tentative entry) and of \<open>_cacheState\<close>.
\<close>

type_synonym 's backend_set =
  "'s \<Rightarrow> string \<Rightarrow> jsval \<Rightarrow> headers \<Rightarrow> CacheControl option \<Rightarrow> bool outcome \<times> 's"

definition updateCache ::
  "(string \<Rightarrow> int option) \<Rightarrow> int \<Rightarrow> int \<Rightarrow> int \<Rightarrow> CachingRequestConfig
     \<Rightarrow> 's backend_set \<Rightarrow> 's \<Rightarrow> string \<Rightarrow> jsval \<Rightarrow> headers \<Rightarrow> bool \<times> 's" where
  "updateCache parseDate nowParse nowUpdated nowState cacheConfig backendSet s k v h =
     (if \<not> truthy v then (False, s)
      else
        let cc = evaluateCacheControl parseDate nowParse h;
            st = cacheState nowState nowUpdated cc
                   (defaultCacheControl cacheConfig) (forcedCacheControl cacheConfig)
        in if state st = DISABLED then (False, s)
           else (case backendSet s k v h cc of
                   (Resolved _, s1) \<Rightarrow> (True, s1)
                 | (Rejected _, s1) \<Rightarrow> (False, s1)))"

text \<open>The in-memory cache as a backend; its \<open>set\<close> never rejects.\<close>

definition memoryBackendSet :: "int \<Rightarrow> MemoryCache backend_set" where
  "memoryBackendSet now c k v h cc =
     (Resolved (fst (MemoryCache_set c now k v h cc)), snd (MemoryCache_set c now k v h cc))"

section \<open>The caching coordinator (CachingClient.fetchJson)\<close>

text \<open>
  What \<open>fetchJson\<close> resolves to. A result taken from the cache is the cached object
  itself (in race mode with the fields of its cache state spread into it), possibly with
  an \<open>update\<close> property; any other result is an object with \<open>value\<close>, \<open>headers\<close> and
  possibly \<open>update\<close>. The \<open>value\<close> is a decoded JSON value, except on the path of race
  mode that stores the whole settled result under \<open>value\<close>. The \<open>update\<close> property is
  a promise, or on that same path a bare error object.
\<close>

datatype update_chan = UpdatePromise "fetched outcome" | UpdateObject err

datatype returned_value =
    Plain jsval
  | WholeFetched fetched
  | WholeCached CachedObject CacheState

datatype json_result =
    Cached CachedObject "CacheState option" "update_chan option"
  | Fetched returned_value headers "update_chan option"

fun resultValue :: "json_result \<Rightarrow> returned_value" where
  "resultValue (Cached c _ _) = Plain (val c)"
| "resultValue (Fetched v _ _) = v"

fun resultHeaders :: "json_result \<Rightarrow> headers" where
  "resultHeaders (Cached c _ _) = headers c"
| "resultHeaders (Fetched _ h _) = h"

fun resultUpdate :: "json_result \<Rightarrow> update_chan option" where
  "resultUpdate (Cached _ _ u) = u"
| "resultUpdate (Fetched _ _ u) = u"

text \<open>
  One call of \<open>fetchJson\<close>: what it settles to, the calls it made on the delegate, the
  fetched result handed to \<open>_updateCache\<close> (if any), and whether it aborted its own
  request.
\<close>

record run =
  result :: "json_result outcome"
  transport :: "call list"
  writeThrough :: "fetched option"
  fetchAborted :: bool

definition noUpdate :: "string \<Rightarrow> update_chan" where
  "noUpdate msg = UpdatePromise (Rejected (NoUpdateError msg))"

definition withUpdate :: "bool \<Rightarrow> update_chan \<Rightarrow> update_chan option" where
  "withUpdate upd u = (if upd then Some u else None)"

definition plainResult :: "fetched \<Rightarrow> update_chan option \<Rightarrow> json_result" where
  "plainResult f u = Fetched (Plain (fvalue f)) (fheaders f) u"

text \<open>
  The errors on which a stale entry with \<open>staleIfError\<close> is served: an \<open>HttpError\<close> for a
  response status of 500 or more, and a network error.
\<close>

fun staleIfErrorApplies :: "err \<Rightarrow> bool" where
  "staleIfErrorApplies (HttpResponseError s) = (s \<ge> 500)"
| "staleIfErrorApplies NetworkError = True"
| "staleIfErrorApplies _ = False"

definition truthyStr :: "string option \<Rightarrow> bool" where
  "truthyStr s = (case s of None \<Rightarrow> False | Some v \<Rightarrow> v \<noteq> [])"

text \<open>\<open>SimpleFetchClient._hasHeader\<close> and \<open>_acceptHeaderSpecified\<close> (no defaults by method).\<close>

definition hasHeader :: "string \<Rightarrow> HeadersInit option \<Rightarrow> bool" where
  "hasHeader k header =
     (case header of
        None \<Rightarrow> False
      | Some (OfHeaders h) \<Rightarrow> Headers_has h k
      | Some (OfPairs ps) \<Rightarrow> k \<in> fst ` set ps)"

definition acceptHeaderSpecified ::
  "headers option \<Rightarrow> HeadersInit option \<Rightarrow> HeadersInit option \<Rightarrow> bool" where
  "acceptHeaderSpecified inputHdrs initHdrs defaultHdrs =
     (hasHeader ''Accept'' initHdrs
      \<or> hasHeader ''Accept'' (map_option OfHeaders inputHdrs)
      \<or> hasHeader ''Accept'' defaultHdrs)"

text \<open>
  The bypass at the start of \<open>fetchJson\<close>: no \<open>useCache\<close> or no key, a forced
  \<open>noStore\<close>, a forced \<open>maxAge\<close> of \<open>false\<close>, or no available cache.
\<close>

definition bypassed :: "CachingRequestConfig option \<Rightarrow> bool \<Rightarrow> bool" where
  "bypassed useCache cacheAvailable =
     (case useCache of
        None \<Rightarrow> True
      | Some cacheConfig \<Rightarrow>
          ckey cacheConfig = []
          \<or> (case forcedCacheControl cacheConfig of
                None \<Rightarrow> False
              | Some f \<Rightarrow> isTrue (noStore f) \<or> maxAge f = Some (Flag False))
          \<or> \<not> cacheAvailable)"

definition delegated :: "request \<Rightarrow> delegate \<Rightarrow> run" where
  "delegated req dlg =
     \<lparr>result = (case delegateFetchJson dlg (initHeaders req) of
                  Resolved f \<Rightarrow> Resolved (plainResult f None) | Rejected e \<Rightarrow> Rejected e),
      transport = [FetchJsonCall (initHeaders req)],
      writeThrough = None, fetchAborted = False\<rparr>"

subsection \<open>Mode cacheControl\<close>

text \<open>The branch for a miss and for a disabled cache: fetch, write through, return.\<close>

definition disabledBranch :: "bool \<Rightarrow> request \<Rightarrow> delegate \<Rightarrow> run" where
  "disabledBranch upd req dlg =
     (case delegateFetchJson dlg (initHeaders req) of
        Resolved f \<Rightarrow>
          \<lparr>result = Resolved (plainResult f (withUpdate upd (noUpdate ''Cache disabled''))),
           transport = [FetchJsonCall (initHeaders req)],
           writeThrough = Some f, fetchAborted = False\<rparr>
      | Rejected e \<Rightarrow>
          \<lparr>result = Rejected e, transport = [FetchJsonCall (initHeaders req)],
           writeThrough = None, fetchAborted = False\<rparr>)"

text \<open>The headers of the conditional request for a stale entry with a validator.\<close>

definition conditionalHeaders :: "request \<Rightarrow> CachedObject \<Rightarrow> headers" where
  "conditionalHeaders req c =
     (let h0 = Headers_new (case initHeaders req of None \<Rightarrow> OfPairs [] | Some i \<Rightarrow> i);
          h1 = (case Headers_get (headers c) ''ETag'' of
                  Some etag \<Rightarrow>
                    if etag \<noteq> [] then Headers_append h0 ''If-None-Match'' etag
                    else (case Headers_get (headers c) ''Last-Modified'' of
                            Some lastMod \<Rightarrow>
                              if lastMod \<noteq> [] then Headers_append h0 ''If-Modified-Since'' lastMod
                              else h0
                          | None \<Rightarrow> h0)
                | None \<Rightarrow>
                    (case Headers_get (headers c) ''Last-Modified'' of
                       Some lastMod \<Rightarrow>
                         if lastMod \<noteq> [] then Headers_append h0 ''If-Modified-Since'' lastMod
                         else h0
                     | None \<Rightarrow> h0))
      in if acceptHeaderSpecified (inputHeaders req) (Some (OfHeaders h1)) (Some (OfHeaders h1))
         then h1 else Headers_append h1 ''Accept'' ''application/json'')"

text \<open>
  The revalidation of a stale entry: what \<open>resultPromise\<close> settles to (the cached object
  on a 304 without \<open>update\<close>, else the fetched result), the call made, and the result
  written through.
\<close>

datatype settled = GotCached CachedObject | GotFetched fetched

definition revalidate ::
  "bool \<Rightarrow> request \<Rightarrow> delegate \<Rightarrow> CachedObject
     \<Rightarrow> settled outcome \<times> call list \<times> fetched option" where
  "revalidate upd req dlg c =
     (if truthyStr (Headers_get (headers c) ''ETag'')
         \<or> truthyStr (Headers_get (headers c) ''Last-Modified'')
      then
        let init2 = Some (OfHeaders (conditionalHeaders req c)) in
        (case delegateFetch dlg init2 of
           Rejected e \<Rightarrow> (Rejected e, [FetchCall init2], None)
         | Resolved resp \<Rightarrow>
             if respStatus resp = 304 then
               (if upd then Rejected (NoUpdateError ''Cached value unchanged, no update required'')
                else Resolved (GotCached c),
                [FetchCall init2], None)
             else
               (case respJson resp of
                  Rejected e \<Rightarrow> (Rejected e, [FetchCall init2], None)
                | Resolved json \<Rightarrow>
                    (Resolved (GotFetched \<lparr>fvalue = json, fheaders = respHeaders resp\<rparr>),
                     [FetchCall init2],
                     Some \<lparr>fvalue = json, fheaders = respHeaders resp\<rparr>)))
      else
        (case delegateFetchJson dlg (initHeaders req) of
           Rejected e \<Rightarrow> (Rejected e, [FetchJsonCall (initHeaders req)], None)
         | Resolved f \<Rightarrow> (Resolved (GotFetched f), [FetchJsonCall (initHeaders req)], Some f)))"

fun settledResult :: "settled \<Rightarrow> json_result" where
  "settledResult (GotCached c) = Cached c None None"
| "settledResult (GotFetched f) = plainResult f None"

fun settledFetched :: "settled \<Rightarrow> fetched" where
  "settledFetched (GotCached c) = \<lparr>fvalue = val c, fheaders = headers c\<rparr>"
| "settledFetched (GotFetched f) = f"

fun mapOutcome :: "('a \<Rightarrow> 'b) \<Rightarrow> 'a outcome \<Rightarrow> 'b outcome" where
  "mapOutcome g (Resolved x) = Resolved (g x)"
| "mapOutcome g (Rejected e) = Rejected e"

definition staleBranch :: "bool \<Rightarrow> request \<Rightarrow> delegate \<Rightarrow> CachedObject \<Rightarrow> CacheState \<Rightarrow> run" where
  "staleBranch upd req dlg c st =
     (case revalidate upd req dlg c of
        (resultPromise, calls, written) \<Rightarrow>
          if isTrue (stStaleWhileRevalidate st) then
            \<lparr>result = Resolved (Cached c None
                 (withUpdate upd (UpdatePromise (mapOutcome settledFetched resultPromise)))),
             transport = calls, writeThrough = written, fetchAborted = False\<rparr>
          else if isTrue (stStaleIfError st) then
            \<lparr>result = (case resultPromise of
                         Resolved r \<Rightarrow> Resolved (settledResult r)
                       | Rejected e \<Rightarrow>
                           if staleIfErrorApplies e
                           then Resolved (Cached c None
                                  (withUpdate upd (noUpdate ''Request failed, no update available.'')))
                           else Rejected e),
             transport = calls, writeThrough = written, fetchAborted = False\<rparr>
          else
            \<lparr>result = mapOutcome settledResult resultPromise,
             transport = calls, writeThrough = written, fetchAborted = False\<rparr>)"

definition cacheControlMode ::
  "CachingRequestConfig \<Rightarrow> int \<Rightarrow> request \<Rightarrow> delegate \<Rightarrow> CachedObject option outcome \<Rightarrow> run" where
  "cacheControlMode cacheConfig now req dlg cacheGet =
     (case cacheGet of
        Rejected e \<Rightarrow>
          \<lparr>result = Rejected e, transport = [], writeThrough = None, fetchAborted = False\<rparr>
      | Resolved cacheResult \<Rightarrow>
          let upd = isTrue (cupdate cacheConfig);
              cachedAvailable = (case cacheResult of None \<Rightarrow> False | Some c \<Rightarrow> truthy (val c))
          in (case cacheResult of
                None \<Rightarrow> disabledBranch upd req dlg
              | Some c \<Rightarrow>
                  let st = (if cachedAvailable
                            then cacheState now (updated c) (cacheControl c)
                                   (defaultCacheControl cacheConfig) (forcedCacheControl cacheConfig)
                            else plainState DISABLED)
                  in if cachedAvailable \<and> state st = FRESH then
                       \<lparr>result = Resolved (Cached c None
                            (withUpdate upd (noUpdate ''Fresh cache result, no update needed.''))),
                        transport = [], writeThrough = None, fetchAborted = False\<rparr>
                     else if state st = DISABLED then disabledBranch upd req dlg
                     else staleBranch upd req dlg c st))"

subsection \<open>Mode fetchFirst\<close>

definition fetchFirstMode ::
  "CachingRequestConfig \<Rightarrow> int \<Rightarrow> request \<Rightarrow> delegate \<Rightarrow> CachedObject option outcome \<Rightarrow> run" where
  "fetchFirstMode cacheConfig now req dlg cacheGet =
     (case delegateFetchJson dlg (initHeaders req) of
        Resolved f \<Rightarrow>
          \<lparr>result = Resolved (plainResult f None),
           transport = [FetchJsonCall (initHeaders req)],
           writeThrough = Some f, fetchAborted = False\<rparr>
      | Rejected e \<Rightarrow>
          \<lparr>result =
             (case cacheGet of
                Resolved (Some c) \<Rightarrow>
                  let st = cacheState now (updated c) (cacheControl c)
                             (defaultCacheControl cacheConfig) (forcedCacheControl cacheConfig)
                  in if state st = FRESH \<or> isTrue (stStaleIfError st)
                     then Resolved (Cached c None None) else Rejected e
              | Resolved None \<Rightarrow> Rejected e
              | Rejected _ \<Rightarrow> Rejected e),
           transport = [FetchJsonCall (initHeaders req)],
           writeThrough = None, fetchAborted = False\<rparr>)"

subsection \<open>Mode race\<close>

text \<open>
  The cache read and the request run concurrently; which of the two settles first is an
  input. \<open>first\<close> is what a settled promise of the race holds: the cached object with
  its state, or the fetched result.
\<close>

datatype race_winner = CacheWins | FetchWins

datatype first = FirstCached CachedObject CacheState | FirstFetched fetched

fun firstValue :: "first \<Rightarrow> jsval" where
  "firstValue (FirstCached c _) = val c"
| "firstValue (FirstFetched f) = fvalue f"

fun firstHeaders :: "first \<Rightarrow> headers" where
  "firstHeaders (FirstCached c _) = headers c"
| "firstHeaders (FirstFetched f) = fheaders f"

fun firstResult :: "first \<Rightarrow> json_result" where
  "firstResult (FirstCached c st) = Cached c (Some st) None"
| "firstResult (FirstFetched f) = plainResult f None"

fun firstWhole :: "first \<Rightarrow> returned_value" where
  "firstWhole (FirstCached c st) = WholeCached c st"
| "firstWhole (FirstFetched f) = WholeFetched f"

text \<open>\<open>cache.get(...).then(cached => ...)\<close>: the cached object with its state spread in.\<close>

definition cacheWithState ::
  "CachingRequestConfig \<Rightarrow> int \<Rightarrow> CachedObject option outcome \<Rightarrow> first option outcome" where
  "cacheWithState cacheConfig now cacheGet =
     mapOutcome
       (map_option (\<lambda>c. FirstCached c
          (cacheState now (updated c) (cacheControl c)
             (defaultCacheControl cacheConfig) (forcedCacheControl cacheConfig))))
       cacheGet"

text \<open>
  The comparison of the fetched result with the result returned first: equal ETags,
  else equal Last-Modified values, else the \<open>equal\<close> function of the request (by
  default a deep comparison), which is a parameter here.
\<close>

definition equalResult :: "(jsval \<Rightarrow> jsval \<Rightarrow> bool) \<Rightarrow> fetched \<Rightarrow> first \<Rightarrow> bool" where
  "equalResult equalFunction f r =
     (let byEtag =
            (case Headers_get (fheaders f) ''ETag'' of
               Some resultEtag \<Rightarrow>
                 if resultEtag \<noteq> [] then
                   (case Headers_get (firstHeaders r) ''ETag'' of
                      Some cachedEtag \<Rightarrow>
                        if cachedEtag \<noteq> [] then Some (resultEtag = cachedEtag) else None
                    | None \<Rightarrow> None)
                 else None
             | None \<Rightarrow> None);
          byDate =
            (case byEtag of
               Some b \<Rightarrow> Some b
             | None \<Rightarrow>
                 (case Headers_get (fheaders f) ''Last-Modified'' of
                    Some lastModified \<Rightarrow>
                      if lastModified \<noteq> [] then
                        (case Headers_get (firstHeaders r) ''Last-Modified'' of
                           Some cachedLastModified \<Rightarrow>
                             if cachedLastModified \<noteq> []
                             then Some (lastModified = cachedLastModified) else None
                         | None \<Rightarrow> None)
                      else None
                  | None \<Rightarrow> None))
      in (case byDate of Some b \<Rightarrow> b | None \<Rightarrow> equalFunction (fvalue f) (firstValue r)))"

text \<open>
  The handler after the race, for a first result \<open>r\<close> that is not \<open>undefined\<close>. A
  cached result that is stale without \<open>staleWhileRevalidate\<close> waits for the request
  (falling back to the cache on a server or network error when \<open>staleIfError\<close> holds);
  with \<open>update\<close> the settled result \<open>res\<close> is then returned as
  \<open>{value: res, headers: res.headers, update: new NoUpdateError(...)}\<close>. Any other first
  result is returned, with the comparison against the request as its \<open>update\<close>.
\<close>

definition afterRace ::
  "bool \<Rightarrow> (jsval \<Rightarrow> jsval \<Rightarrow> bool) \<Rightarrow> first option outcome \<Rightarrow> fetched outcome \<Rightarrow> first
     \<Rightarrow> json_result outcome \<times> bool" where
  "afterRace upd equalFunction cacheResult fetchResult r =
     (let stateOf = (case r of FirstCached _ st \<Rightarrow> Some st | FirstFetched _ \<Rightarrow> None);
          cached = (case stateOf of Some st \<Rightarrow> state st \<noteq> DISABLED | None \<Rightarrow> False);
          staleWhileRevalidate0 =
            (case stateOf of Some st \<Rightarrow> cached \<and> isTrue (stStaleWhileRevalidate st) | None \<Rightarrow> False)
      in if cached \<and> (case stateOf of Some st \<Rightarrow> state st = STALE | None \<Rightarrow> False)
            \<and> \<not> staleWhileRevalidate0
         then
           let cacheUsableOnError =
                 (case stateOf of Some st \<Rightarrow> isTrue (stStaleIfError st) | None \<Rightarrow> False);
               base =
                 (case fetchResult of
                    Resolved f \<Rightarrow> Resolved (FirstFetched f)
                  | Rejected e \<Rightarrow>
                      if cacheUsableOnError \<and> staleIfErrorApplies e
                      then (case cacheResult of
                              Resolved (Some cr) \<Rightarrow> Resolved cr
                            | Resolved None \<Rightarrow> Rejected e
                            | Rejected ce \<Rightarrow> Rejected ce)
                      else Rejected e)
           in (if \<not> upd then mapOutcome firstResult base
               else mapOutcome
                      (\<lambda>res. Fetched (firstWhole res) (firstHeaders res)
                                (Some (UpdateObject (NoUpdateError ''Cache stale, no update''))))
                      base,
               False)
         else if \<not> upd then (Resolved (firstResult r), \<not> staleWhileRevalidate0)
         else
           (Resolved (Fetched (Plain (firstValue r)) (firstHeaders r)
              (Some (UpdatePromise
                 (case fetchResult of
                    Resolved f \<Rightarrow>
                      if equalResult equalFunction f r
                      then Rejected (NoUpdateError ''Cache and fetch returned equal results'')
                      else Resolved f
                  | Rejected e \<Rightarrow> Rejected e)))),
            False))"

text \<open>
  Race mode as a whole. When the promise that settles first is rejected, both are
  awaited: a failed request falls back to a cached result that is fresh or has one of
  the relaxations, anything else goes on with the request. A request that is aborted
  while it is pending writes nothing through.
\<close>

definition raceMode ::
  "CachingRequestConfig \<Rightarrow> int \<Rightarrow> request \<Rightarrow> delegate \<Rightarrow> CachedObject option outcome
     \<Rightarrow> race_winner \<Rightarrow> (jsval \<Rightarrow> jsval \<Rightarrow> bool) \<Rightarrow> run" where
  "raceMode cacheConfig now req dlg cacheGet winner equalFunction =
     (let upd = isTrue (cupdate cacheConfig);
          cacheResult = cacheWithState cacheConfig now cacheGet;
          fetchResult = delegateFetchJson dlg (initHeaders req);
          raced = (case winner of
                     CacheWins \<Rightarrow> cacheResult
                   | FetchWins \<Rightarrow> mapOutcome (\<lambda>f. Some (FirstFetched f)) fetchResult);
          recovered =
            (case raced of
               Resolved r \<Rightarrow> Resolved r
             | Rejected _ \<Rightarrow>
                 (case fetchResult of
                    Resolved f \<Rightarrow> Resolved (Some (FirstFetched f))
                  | Rejected fe \<Rightarrow>
                      (case cacheResult of
                         Rejected ce \<Rightarrow> Rejected ce
                       | Resolved None \<Rightarrow> Rejected fe
                       | Resolved (Some cr) \<Rightarrow>
                           (case cr of
                              FirstCached c st \<Rightarrow>
                                if state st = FRESH \<or> isTrue (stStaleWhileRevalidate st)
                                   \<or> isTrue (stStaleIfError st)
                                then Resolved (Some cr) else Rejected fe
                            | FirstFetched _ \<Rightarrow> Rejected fe))));
          answer =
            (case recovered of
               Rejected e \<Rightarrow> (Rejected e, False)
             | Resolved None \<Rightarrow>
                 (mapOutcome
                    (\<lambda>f. plainResult f (withUpdate upd (noUpdate ''No cached result available'')))
                    fetchResult,
                  False)
             | Resolved (Some r) \<Rightarrow> afterRace upd equalFunction cacheResult fetchResult r);
          abortedPending =
            (snd answer \<and> winner = CacheWins \<and> (case raced of Resolved _ \<Rightarrow> True | Rejected _ \<Rightarrow> False))
      in \<lparr>result = fst answer,
          transport = [FetchJsonCall (initHeaders req)],
          writeThrough = (case fetchResult of
                            Resolved f \<Rightarrow> if abortedPending then None else Some f
                          | Rejected _ \<Rightarrow> None),
          fetchAborted = snd answer\<rparr>)"

subsection \<open>The entry point\<close>

text \<open>
  \<open>fetchJson\<close> of the caching client. \<open>cacheAvailable\<close> tells whether one of the active
  providers has an available cache for the table of the request, and \<open>cacheGet\<close> is
  what \<open>cache.get(key)\<close> of that cache settles to.
\<close>

definition CachingClient_fetchJson ::
  "CachingRequestConfig option \<Rightarrow> bool \<Rightarrow> int \<Rightarrow> request \<Rightarrow> delegate
     \<Rightarrow> CachedObject option outcome \<Rightarrow> race_winner \<Rightarrow> (jsval \<Rightarrow> jsval \<Rightarrow> bool) \<Rightarrow> run" where
  "CachingClient_fetchJson useCache cacheAvailable now req dlg cacheGet winner equalFunction =
     (case useCache of
        None \<Rightarrow> delegated req dlg
      | Some cacheConfig \<Rightarrow>
          if bypassed useCache cacheAvailable then delegated req dlg
          else
            (case cmode cacheConfig of
               None \<Rightarrow> cacheControlMode cacheConfig now req dlg cacheGet
             | Some ModeCacheControl \<Rightarrow> cacheControlMode cacheConfig now req dlg cacheGet
             | Some ModeFetchFirst \<Rightarrow> fetchFirstMode cacheConfig now req dlg cacheGet
             | Some ModeRace \<Rightarrow> raceMode cacheConfig now req dlg cacheGet winner equalFunction
             | Some (ModeOther m) \<Rightarrow>
                 \<lparr>result = Rejected (OtherError (''Invalid cache mode '' @ m)),
                  transport = [], writeThrough = None, fetchAborted = False\<rparr>))"

section \<open>Properties of the freshness evaluator\<close>

text \<open>
  A forced record that holds \<open>maxAge\<close> with the value \<open>undefined\<close> overwrites the
  \<open>maxAge\<close> of the response, and the entry is fresh without limit.
\<close>

lemma undefined_property_overwrites:
  "maxAge (effectiveCacheControl None (Some (emptyCacheControl\<lparr>maxAge := Some (Secs 0)\<rparr>))
             (Some (emptyCacheControl\<lparr>undefinedProperties := {MaxAge}\<rparr>))) = None
   \<and> state (cacheState 2000 1000 (Some (emptyCacheControl\<lparr>maxAge := Some (Secs 0)\<rparr>)) None
             (Some (emptyCacheControl\<lparr>undefinedProperties := {MaxAge}\<rparr>))) = FRESH"
  by (simp add: cacheState_def effectiveCacheControl_def assignOpt_def assign_def
      laterWins_def emptyCacheControl_def isTrue_def plainState_def)

lemma cacheState_maxAge_zero:
  assumes "maxAge eff = Some (Secs 0)"
    and "\<not> isTrue (noStore eff)" and "\<not> isTrue (noCache eff)"
    and "\<not> isTrue (mustRevalidate eff)"
    and "eff = effectiveCacheControl d cc f"
  shows "state (cacheState now upd cc d f) = (if now \<le> upd then FRESH else STALE)"
  using assms by (simp add: cacheState_def Let_def plainState_def)

text \<open>
  Claim C6, as stated: with \<open>maxAge = 0\<close> and no other directive the entry is stale at
  every lookup time \<open>now \<ge> updated\<close>. It fails at \<open>now = updated\<close>: the evaluator
  compares with \<open>now <= validUntil\<close>, so in the millisecond of the write the entry is fresh.
\<close>

theorem C6_counterexample:
  "state (cacheState 1000 1000
            (Some (emptyCacheControl\<lparr>maxAge := Some (Secs 0)\<rparr>)) None None) = FRESH"
  by (simp add: cacheState_def effectiveCacheControl_def assignOpt_def assign_def
      laterWins_def emptyCacheControl_def isTrue_def plainState_def)

text \<open>
  Claim C6, amended: an entry whose effective record has \<open>maxAge = 0\<close> and neither
  \<open>noStore\<close>, \<open>noCache\<close> nor \<open>mustRevalidate\<close> is classified stale at every lookup time
  strictly after \<open>updated\<close>, and fresh at every lookup time up to and including
  \<open>updated\<close>.
\<close>

theorem C6_maxAge_zero_stale_after_update:
  assumes "maxAge (effectiveCacheControl d cc f) = Some (Secs 0)"
    and "\<not> isTrue (noStore (effectiveCacheControl d cc f))"
    and "\<not> isTrue (noCache (effectiveCacheControl d cc f))"
    and "\<not> isTrue (mustRevalidate (effectiveCacheControl d cc f))"
  shows "(upd < now \<longrightarrow> state (cacheState now upd cc d f) = STALE)
       \<and> (now \<le> upd \<longrightarrow> state (cacheState now upd cc d f) = FRESH)"
  using cacheState_maxAge_zero [OF assms(1) assms(2) assms(3) assms(4) refl] by simp

theorem C6_witness:
  "state (cacheState 1001 1000
            (Some (emptyCacheControl\<lparr>maxAge := Some (Secs 0)\<rparr>)) None None) = STALE
   \<and> state (cacheState 999 1000
            (Some (emptyCacheControl\<lparr>maxAge := Some (Secs 0)\<rparr>)) None None) = FRESH"
proof -
  let ?cc = "Some (emptyCacheControl\<lparr>maxAge := Some (Secs 0)\<rparr>)"
  have e: "effectiveCacheControl None ?cc None = emptyCacheControl\<lparr>maxAge := Some (Secs 0)\<rparr>"
    by (simp add: effectiveCacheControl_def assignOpt_def assign_def laterWins_def
        emptyCacheControl_def)
  have h1: "maxAge (effectiveCacheControl None ?cc None) = Some (Secs 0)"
    and h2: "\<not> isTrue (noStore (effectiveCacheControl None ?cc None))"
    and h3: "\<not> isTrue (noCache (effectiveCacheControl None ?cc None))"
    and h4: "\<not> isTrue (mustRevalidate (effectiveCacheControl None ?cc None))"
    unfolding e by (simp_all add: emptyCacheControl_def isTrue_def)
  from C6_maxAge_zero_stale_after_update [OF h1 h2 h3 h4, of 1000 1001]
       C6_maxAge_zero_stale_after_update [OF h1 h2 h3 h4, of 1000 999]
  show ?thesis by simp
qed

section \<open>Properties of the in-memory cache\<close>

lemma Map_get_Map_set: "Map_get (Map_set m k v) k = Some v"
proof (cases "Map_has m k")
  case True
  then have "map_of (map (\<lambda>p. if fst p = k then (k, v) else p) m) k = Some v"
    by (induction m) (auto simp: Map_has_def)
  with True show ?thesis by (simp add: Map_get_def Map_set_def)
next
  case False
  then have "map_of m k = None"
    by (simp add: Map_has_def map_of_eq_None_iff)
  with False show ?thesis by (simp add: Map_get_def Map_set_def map_add_def)
qed

text \<open>
  Claim C10: \<open>set\<close> with an empty key or an undefined value resolves to false and leaves
  the cache as it was; any other \<open>set\<close> resolves to true, and \<open>get\<close> of the key then
  yields an entry with the stored value. Values are compared structurally, so a cache
  that clones its items is used with a \<open>deepCopy\<close> that returns a value equal to its
  argument (as \<open>structuredClone\<close>, the default, does on decoded JSON).
\<close>

theorem C10_MemoryCache_set:
  assumes "\<forall>copy. deepCopy c = Some copy \<longrightarrow> copy v = v"
  shows "(k = [] \<or> v = JUndefined \<longrightarrow> MemoryCache_set c now k v h cc = (False, c))
       \<and> (k \<noteq> [] \<and> v \<noteq> JUndefined \<longrightarrow>
            fst (MemoryCache_set c now k v h cc) = True
          \<and> (\<exists>e. MemoryCache_get (snd (MemoryCache_set c now k v h cc)) k = Some e
                 \<and> val e = v))"
proof (intro conjI impI)
  assume "k = [] \<or> v = JUndefined"
  then show "MemoryCache_set c now k v h cc = (False, c)"
    by (auto simp: MemoryCache_set_def)
next
  assume "k \<noteq> [] \<and> v \<noteq> JUndefined"
  then show "fst (MemoryCache_set c now k v h cc) = True"
    by (simp add: MemoryCache_set_def Let_def)
next
  assume ok: "k \<noteq> [] \<and> v \<noteq> JUndefined"
  show "\<exists>e. MemoryCache_get (snd (MemoryCache_set c now k v h cc)) k = Some e \<and> val e = v"
  proof (cases "deepCopy c")
    case None
    with ok show ?thesis
      by (simp add: MemoryCache_set_def MemoryCache_get_def Let_def Map_get_Map_set)
  next
    case (Some copy)
    with assms have "copy v = v" by simp
    with ok Some show ?thesis
      by (simp add: MemoryCache_set_def MemoryCache_get_def Let_def Map_get_Map_set)
  qed
qed

theorem C10_witness:
  "MemoryCache_set (MemoryCache_new \<lparr>cfgMaxItems = Some 1, cfgCloneItems = Some True,
       cfgDeepCopy = Some (\<lambda>x. x)\<rparr>) 5 [] (JNum 1) [] None
     = (False, MemoryCache_new \<lparr>cfgMaxItems = Some 1, cfgCloneItems = Some True,
       cfgDeepCopy = Some (\<lambda>x. x)\<rparr>)
   \<and> fst (MemoryCache_set (MemoryCache_new \<lparr>cfgMaxItems = Some 1, cfgCloneItems = Some True,
       cfgDeepCopy = Some (\<lambda>x. x)\<rparr>) 5 ''a'' JNull [] None) = True
   \<and> (\<exists>e. MemoryCache_get (snd (MemoryCache_set (MemoryCache_new \<lparr>cfgMaxItems = Some 1,
       cfgCloneItems = Some True, cfgDeepCopy = Some (\<lambda>x. x)\<rparr>) 5 ''a'' JNull [] None)) ''a''
         = Some e \<and> val e = JNull)"
proof -
  let ?c = "MemoryCache_new \<lparr>cfgMaxItems = Some 1, cfgCloneItems = Some True,
       cfgDeepCopy = Some (\<lambda>x. x)\<rparr>"
  have d: "deepCopy ?c = Some (\<lambda>x. x)"
    by (simp add: MemoryCache_new_def isTrue_def)
  have h1: "\<forall>copy. deepCopy ?c = Some copy \<longrightarrow> copy (JNum 1) = JNum 1"
    and h2: "\<forall>copy. deepCopy ?c = Some copy \<longrightarrow> copy JNull = JNull"
    using d by simp_all
  from C10_MemoryCache_set [OF h1, of "[]" 5 "[]" None]
       C10_MemoryCache_set [OF h2, of "''a''" 5 "[]" None]
  show ?thesis by simp
qed

section \<open>Properties of the provider registry\<close>

text \<open>
  Claim C9, as stated: only ids in the language of \<open>/^[A-Za-z][A-Za-z0-9_-]{0,63}$/\<close>
  can be registered. The code checks the first character and the length only, as its
  documentation says (at most 64 characters, starting with an ASCII letter): the id
  \<open>a!\<close> is outside the language and is registered.
\<close>

theorem C9_counterexample:
  "\<not> matchesProviderIdPattern ''a!''
   \<and> registerCacheProvider (Map.empty :: nat registry) ''a!'' 7 = Inr [''a!'' \<mapsto> 7]"
  by (simp add: matchesProviderIdPattern_def isIdChar_def isAsciiLetter_def
      registerCacheProvider_def firstCharIsLetter_def member_in_def objectPrototypeKeys_def)

text \<open>
  Claim C9, amended: registration succeeds only for ids that start with an ASCII letter
  and have at most 64 characters (the characters after the first are not checked), and
  any other id is rejected with an error; registering an id that is registered with the
  identical loader leaves the registry unchanged; registering an id that is registered
  with a different loader is an error.
\<close>

theorem C9_registerCacheProvider:
  "(\<forall>reg'. registerCacheProvider reg pid l = Inr reg'
        \<longrightarrow> firstCharIsLetter pid \<and> length pid \<le> 64)
   \<and> (\<not> (firstCharIsLetter pid \<and> length pid \<le> 64)
        \<longrightarrow> (\<exists>e. registerCacheProvider reg pid l = Inl e))
   \<and> (firstCharIsLetter pid \<and> length pid \<le> 64 \<and> reg pid = Some l
        \<longrightarrow> registerCacheProvider reg pid l = Inr reg)
   \<and> (firstCharIsLetter pid \<and> length pid \<le> 64 \<and> reg pid = Some l' \<and> l' \<noteq> l
        \<longrightarrow> registerCacheProvider reg pid l = Inl (AlreadyRegistered pid))"
  by (auto simp: registerCacheProvider_def member_in_def member_get_def split: if_splits)

theorem C9_witness:
  "registerCacheProvider (Map.empty :: nat registry) ''test-delayed'' 1
     = Inr [''test-delayed'' \<mapsto> 1]
   \<and> firstCharIsLetter ''test-delayed'' \<and> length ''test-delayed'' \<le> 64
   \<and> (\<exists>e. registerCacheProvider (Map.empty :: nat registry) ''_x'' 1 = Inl e)
   \<and> registerCacheProvider [''memory'' \<mapsto> (1::nat)] ''memory'' 1 = Inr [''memory'' \<mapsto> 1]
   \<and> registerCacheProvider [''memory'' \<mapsto> (1::nat)] ''memory'' 2
       = Inl (AlreadyRegistered ''memory'')"
proof -
  have a: "registerCacheProvider (Map.empty :: nat registry) ''test-delayed'' 1
             = Inr [''test-delayed'' \<mapsto> 1]"
    by (simp add: registerCacheProvider_def firstCharIsLetter_def isAsciiLetter_def
        member_in_def objectPrototypeKeys_def)
  have b: "\<not> (firstCharIsLetter ''_x'' \<and> length ''_x'' \<le> 64)"
    by (simp add: firstCharIsLetter_def isAsciiLetter_def)
  have c: "firstCharIsLetter ''memory'' \<and> length ''memory'' \<le> 64
             \<and> [''memory'' \<mapsto> (1::nat)] ''memory'' = Some 1"
    by (simp add: firstCharIsLetter_def isAsciiLetter_def)
  have d: "firstCharIsLetter ''memory'' \<and> length ''memory'' \<le> 64
             \<and> [''memory'' \<mapsto> (1::nat)] ''memory'' = Some 1 \<and> (1::nat) \<noteq> 2"
    by (simp add: firstCharIsLetter_def isAsciiLetter_def)
  note t = C9_registerCacheProvider
  have a': "firstCharIsLetter ''test-delayed'' \<and> length ''test-delayed'' \<le> 64"
    using t [of "Map.empty :: nat registry" "''test-delayed''" 1 1, THEN conjunct1, rule_format, OF a] .
  have b': "\<exists>e. registerCacheProvider (Map.empty :: nat registry) ''_x'' 1 = Inl e"
    using t [of "Map.empty :: nat registry" "''_x''" 1 1, THEN conjunct2, THEN conjunct1, rule_format, OF b] .
  have c': "registerCacheProvider [''memory'' \<mapsto> (1::nat)] ''memory'' 1 = Inr [''memory'' \<mapsto> 1]"
    using t [of "[''memory'' \<mapsto> (1::nat)]" "''memory''" 1 1, THEN conjunct2, THEN conjunct2, THEN conjunct1, rule_format, OF c] .
  have d': "registerCacheProvider [''memory'' \<mapsto> (1::nat)] ''memory'' 2
       = Inl (AlreadyRegistered ''memory'')"
    using t [of "[''memory'' \<mapsto> (1::nat)]" "''memory''" 2 1, THEN conjunct2, THEN conjunct2, THEN conjunct2, rule_format, OF d] .
  show ?thesis
    by (rule conjI a a' [THEN conjunct1] a' [THEN conjunct2] b' c' d')+
qed

section \<open>Properties of the cache-control parser\<close>







text \<open>
  A number of 310 digits is beyond the doubles: \<open>parseInt\<close> gives infinity, an
  \<open>Age\<close> of that size is ignored, and a \<open>max-age\<close> of that size is dropped.
\<close>

lemma parseInt_infinite: "parseInt (replicate 310 CHR ''9'') = Some PosInfinity"
  by code_simp

lemma evaluateCacheControl_infinite_age:
  "evaluateCacheControl (\<lambda>_. None) 0
     [(''Cache-Control'', ''max-age=10''), (''Age'', replicate 310 CHR ''9'')]
     = Some (emptyCacheControl\<lparr>maxAge := Some (Secs 10)\<rparr>)"
  by code_simp

lemma evaluateCacheControl_infinite_maxAge:
  "evaluateCacheControl (\<lambda>_. None) 0
     [(''Cache-Control'', ''max-age='' @ replicate 310 CHR ''9'')]
     = Some emptyCacheControl"
  by code_simp




section \<open>Properties of the default-header merge\<close>

text \<open>The example of the specification: \<open>a,b\<close> is not extended by \<open>b\<close> again.\<close>

lemma mergeHeaders_skips_present_entry:
  "mergeHeaders (Some (OfPairs [(''X-Test'', ''a,b'')])) [OfPairs [(''x-test'', ''B'')]]
     = Some (OfHeaders [(''X-Test'', ''a,b'')])"
  by code_simp

text \<open>
  Claim C8 says that merging the same update twice gives the same headers as merging it
  once. The merge looks for the update's value among the comma-separated entries of the
  existing value, so a value that itself contains a comma (which is also what an update
  with two values for one key delivers) is never found and is appended again: merging
  \<open>X-Test: a,b\<close> into empty headers gives \<open>a,b\<close>, merging it again gives
  \<open>a,b, a,b\<close>.
\<close>

theorem C8_merge_twice_differs:
  "mergeHeaders None [OfPairs [(''X-Test'', ''a,b'')]] = Some (OfHeaders [(''x-test'', ''a,b'')])
   \<and> mergeHeaders (mergeHeaders None [OfPairs [(''X-Test'', ''a,b'')]])
         [OfPairs [(''X-Test'', ''a,b'')]]
       = Some (OfHeaders [(''x-test'', ''a,b''), (''x-test'', ''a,b'')])
   \<and> Headers_get [(''x-test'', ''a,b''), (''x-test'', ''a,b'')] ''X-Test'' = Some ''a,b, a,b''
   \<and> Headers_get [(''x-test'', ''a,b'')] ''X-Test'' = Some ''a,b''"
  by code_simp

section \<open>Properties of the Retry-After handling\<close>











section \<open>Properties of the write-through\<close>

lemma cacheState_DISABLED_iff:
  "state (cacheState now upd cc d f) = DISABLED
     \<longleftrightarrow> isTrue (noStore (effectiveCacheControl d cc f))"
  by (simp add: cacheState_def Let_def plainState_def
      split: option.splits seconds_or_bool.splits bool.splits)

text \<open>
  Claim C5, as stated: no write when the effective record has \<open>maxAge\<close> 0 (or false)
  and no revalidation hint. \<open>_updateCache\<close> skips the write only for a falsy value and
  for the state \<open>DISABLED\<close>, which is \<open>noStore\<close> alone: a response with
  \<open>Cache-Control: max-age=0\<close> has an effective record with \<open>maxAge = 0\<close> and nothing
  else, and is written to the cache.
\<close>

theorem C5_counterexample:
  "effectiveCacheControl None
      (evaluateCacheControl (\<lambda>_. None) 10 [(''Cache-Control'', ''max-age=0'')]) None
     = emptyCacheControl\<lparr>maxAge := Some (Secs 0)\<rparr>
   \<and> fst (updateCache (\<lambda>_. None) 10 10 10
        \<lparr>ckey = ''b'', cmode = None, defaultCacheControl = None, forcedCacheControl = None,
         cupdate = None\<rparr>
        (memoryBackendSet 11) \<lparr>cache = [], maxItems = Some 5, deepCopy = None\<rparr>
        ''b'' (JObj [(''result'', JStr ''x'')]) [(''Cache-Control'', ''max-age=0'')]) = True
   \<and> map fst (cache (snd (updateCache (\<lambda>_. None) 10 10 10
        \<lparr>ckey = ''b'', cmode = None, defaultCacheControl = None, forcedCacheControl = None,
         cupdate = None\<rparr>
        (memoryBackendSet 11) \<lparr>cache = [], maxItems = Some 5, deepCopy = None\<rparr>
        ''b'' (JObj [(''result'', JStr ''x'')]) [(''Cache-Control'', ''max-age=0'')]))) = [''b'']"
  by code_simp

text \<open>
  Claim C5, amended: after a successful fetch, if the effective cache-control record
  (defaults, then the record parsed from the response, then the forced record) has
  \<open>noStore\<close>, the backend's \<open>set\<close> is not called and the backend state is unchanged,
  whatever the backend. If the effective record has no \<open>noStore\<close> and the fetched value
  is truthy, \<open>set\<close> is called with the key, the value, the headers and the parsed
  record, also when \<open>maxAge\<close> is 0 or false.
\<close>

theorem C5_no_write_iff_noStore:
  "(isTrue (noStore (effectiveCacheControl (defaultCacheControl cfg)
                       (evaluateCacheControl pd n1 h) (forcedCacheControl cfg)))
      \<longrightarrow> (\<forall>backendSet. updateCache pd n1 n2 n3 cfg backendSet s k v h = (False, s)))
   \<and> (\<not> isTrue (noStore (effectiveCacheControl (defaultCacheControl cfg)
                       (evaluateCacheControl pd n1 h) (forcedCacheControl cfg)))
        \<and> truthy v
      \<longrightarrow> (\<forall>backendSet. updateCache pd n1 n2 n3 cfg backendSet s k v h
             = (case backendSet s k v h (evaluateCacheControl pd n1 h) of
                  (Resolved _, s1) \<Rightarrow> (True, s1) | (Rejected _, s1) \<Rightarrow> (False, s1))))"
  by (simp add: updateCache_def Let_def cacheState_DISABLED_iff)
theorem C5_witness:
  "updateCache (\<lambda>_. None) 10 10 10
      \<lparr>ckey = ''a'', cmode = None, defaultCacheControl = None, forcedCacheControl = None,
       cupdate = None\<rparr>
      (memoryBackendSet 11) \<lparr>cache = [], maxItems = Some 5, deepCopy = None\<rparr>
      ''a'' (JObj [(''result'', JStr ''x'')]) [(''Cache-Control'', ''no-store'')]
     = (False, \<lparr>cache = [], maxItems = Some 5, deepCopy = None\<rparr>)
   \<and> fst (updateCache (\<lambda>_. None) 10 10 10
      \<lparr>ckey = ''a'', cmode = None, defaultCacheControl = None, forcedCacheControl = None,
       cupdate = None\<rparr>
      (memoryBackendSet 11) \<lparr>cache = [], maxItems = Some 5, deepCopy = None\<rparr>
      ''a'' (JObj [(''result'', JStr ''x'')]) [(''Cache-Control'', ''max-age=120'')]) = True"
proof -
  let ?cfg = "\<lparr>ckey = ''a'', cmode = None, defaultCacheControl = None,
                forcedCacheControl = None, cupdate = None\<rparr>"
  let ?c = "\<lparr>cache = [], maxItems = Some 5, deepCopy = None\<rparr>"
  let ?v = "JObj [(''result'', JStr ''x'')]"
  let ?h1 = "[(''Cache-Control'', ''no-store'')]"
  let ?h2 = "[(''Cache-Control'', ''max-age=120'')]"
  have a: "isTrue (noStore (effectiveCacheControl (defaultCacheControl ?cfg)
                       (evaluateCacheControl (\<lambda>_. None) 10 ?h1) (forcedCacheControl ?cfg)))"
    by code_simp
  have b: "\<not> isTrue (noStore (effectiveCacheControl (defaultCacheControl ?cfg)
                       (evaluateCacheControl (\<lambda>_. None) 10 ?h2) (forcedCacheControl ?cfg)))
           \<and> truthy ?v"
    by code_simp
  have "updateCache (\<lambda>_. None) 10 10 10 ?cfg (memoryBackendSet 11) ?c ''a'' ?v ?h1 = (False, ?c)"
    using C5_no_write_iff_noStore
      [where cfg = ?cfg and pd = "\<lambda>_. None" and ?n1.0 = 10 and h = ?h1,
       THEN conjunct1, rule_format, OF a] .
  moreover have "updateCache (\<lambda>_. None) 10 10 10 ?cfg (memoryBackendSet 11) ?c ''a'' ?v ?h2
      = (case memoryBackendSet 11 ?c ''a'' ?v ?h2 (evaluateCacheControl (\<lambda>_. None) 10 ?h2) of
           (Resolved _, s1) \<Rightarrow> (True, s1) | (Rejected _, s1) \<Rightarrow> (False, s1))"
    using C5_no_write_iff_noStore
      [where cfg = ?cfg and pd = "\<lambda>_. None" and ?n1.0 = 10 and h = ?h2 and v = ?v,
       THEN conjunct2, rule_format, OF b] .
  ultimately show ?thesis
    by (simp add: memoryBackendSet_def)
qed

section \<open>Properties of the caching coordinator\<close>

lemma cacheControlMode_fresh_hit:
  assumes "truthy (val c)"
    and "state (cacheState now (updated c) (cacheControl c)
                  (defaultCacheControl cfg) (forcedCacheControl cfg)) = FRESH"
  shows "cacheControlMode cfg now req dlg (Resolved (Some c))
           = \<lparr>result = Resolved (Cached c None
                  (withUpdate (isTrue (cupdate cfg))
                     (noUpdate ''Fresh cache result, no update needed.''))),
              transport = [], writeThrough = None, fetchAborted = False\<rparr>"
  using assms by (simp add: cacheControlMode_def Let_def)

lemma fetchJson_cacheControl:
  assumes "\<not> bypassed (Some cfg) avail"
    and "cmode cfg = None \<or> cmode cfg = Some ModeCacheControl"
  shows "CachingClient_fetchJson (Some cfg) avail now req dlg cacheGet w eq
           = cacheControlMode cfg now req dlg cacheGet"
  using assms by (auto simp: CachingClient_fetchJson_def)

text \<open>
  Claim C2, as stated: in cacheControl mode a lookup that yields an entry which the
  freshness evaluator classifies as fresh is answered from the cache, without the
  transport. The coordinator evaluates freshness only for an entry whose value is
  truthy (\<open>cachedAvailable = !!cacheResult?.value\<close>): a cached entry with the value 0,
  with no cache-control record and so fresh for the evaluator, is treated as a miss, and
  the request goes to the transport.
\<close>

theorem C2_counterexample:
  "state (cacheState 100 50 None None None) = FRESH
   \<and> transport (CachingClient_fetchJson
        (Some \<lparr>ckey = ''a'', cmode = None, defaultCacheControl = None,
               forcedCacheControl = None, cupdate = None\<rparr>)
        True 100 \<lparr>inputHeaders = None, initHeaders = None\<rparr>
        \<lparr>delegateFetchJson = (\<lambda>_. Resolved \<lparr>fvalue = JNum 1, fheaders = []\<rparr>),
         delegateFetch = (\<lambda>_. Rejected NetworkError)\<rparr>
        (Resolved (Some \<lparr>key = ''a'', updated = 50, val = JNum 0, headers = [],
                         cacheControl = None\<rparr>))
        CacheWins (=))
     = [FetchJsonCall None]
   \<and> result (CachingClient_fetchJson
        (Some \<lparr>ckey = ''a'', cmode = None, defaultCacheControl = None,
               forcedCacheControl = None, cupdate = None\<rparr>)
        True 100 \<lparr>inputHeaders = None, initHeaders = None\<rparr>
        \<lparr>delegateFetchJson = (\<lambda>_. Resolved \<lparr>fvalue = JNum 1, fheaders = []\<rparr>),
         delegateFetch = (\<lambda>_. Rejected NetworkError)\<rparr>
        (Resolved (Some \<lparr>key = ''a'', updated = 50, val = JNum 0, headers = [],
                         cacheControl = None\<rparr>))
        CacheWins (=))
     = Resolved (Fetched (Plain (JNum 1)) [] None)"
  by (simp add: CachingClient_fetchJson_def bypassed_def cacheControlMode_def
      disabledBranch_def plainResult_def withUpdate_def isTrue_def plainState_def
      cacheState_def effectiveCacheControl_def assignOpt_def emptyCacheControl_def)

text \<open>
  Claim C2, amended: in cacheControl mode (the default), when the cache lookup yields an
  entry with a truthy value that the freshness evaluator classifies as fresh, the call
  returns the cached value and headers and makes no call on the transport; with
  \<open>update = true\<close> the returned \<open>update\<close> is a rejected promise carrying a
  \<open>NoUpdateError\<close>.
\<close>

theorem C2_fresh_hit_served_from_cache:
  assumes "\<not> bypassed (Some cfg) avail"
    and "cmode cfg = None \<or> cmode cfg = Some ModeCacheControl"
    and "truthy (val c)"
    and "state (cacheState now (updated c) (cacheControl c)
                  (defaultCacheControl cfg) (forcedCacheControl cfg)) = FRESH"
  shows "\<exists>r. result (CachingClient_fetchJson (Some cfg) avail now req dlg
                       (Resolved (Some c)) w eq) = Resolved r
           \<and> resultValue r = Plain (val c) \<and> resultHeaders r = headers c
           \<and> transport (CachingClient_fetchJson (Some cfg) avail now req dlg
                          (Resolved (Some c)) w eq) = []
           \<and> (cupdate cfg = Some True \<longrightarrow>
                (\<exists>msg. resultUpdate r = Some (UpdatePromise (Rejected (NoUpdateError msg)))))
           \<and> (cupdate cfg \<noteq> Some True \<longrightarrow> resultUpdate r = None)"
  unfolding fetchJson_cacheControl [OF assms(1) assms(2)]
    cacheControlMode_fresh_hit [OF assms(3) assms(4)]
  by (simp add: withUpdate_def noUpdate_def isTrue_def)

lemma fetchJson_fetchFirst:
  assumes "\<not> bypassed (Some cfg) avail" and "cmode cfg = Some ModeFetchFirst"
  shows "CachingClient_fetchJson (Some cfg) avail now req dlg cacheGet w eq
           = fetchFirstMode cfg now req dlg cacheGet"
  using assms by (simp add: CachingClient_fetchJson_def)

text \<open>
  Claim C4: in fetchFirst mode, when the request fails, a cached entry that is fresh, or
  stale with \<open>staleIfError\<close>, is returned; with no entry, with an entry that is neither,
  or with a failing cache lookup, the error of the request is rethrown.
\<close>

theorem C4_fetchFirst_failure:
  assumes "\<not> bypassed (Some cfg) avail" and "cmode cfg = Some ModeFetchFirst"
    and "delegateFetchJson dlg (initHeaders req) = Rejected e"
  shows "(\<forall>c. cacheGet = Resolved (Some c)
              \<and> (state (cacheState now (updated c) (cacheControl c)
                          (defaultCacheControl cfg) (forcedCacheControl cfg)) = FRESH
                 \<or> stStaleIfError (cacheState now (updated c) (cacheControl c)
                          (defaultCacheControl cfg) (forcedCacheControl cfg)) = Some True)
            \<longrightarrow> result (CachingClient_fetchJson (Some cfg) avail now req dlg cacheGet w eq)
                  = Resolved (Cached c None None))
       \<and> (cacheGet = Resolved None \<or> (\<exists>ce. cacheGet = Rejected ce)
            \<or> (\<exists>c. cacheGet = Resolved (Some c)
                  \<and> state (cacheState now (updated c) (cacheControl c)
                          (defaultCacheControl cfg) (forcedCacheControl cfg)) \<noteq> FRESH
                  \<and> stStaleIfError (cacheState now (updated c) (cacheControl c)
                          (defaultCacheControl cfg) (forcedCacheControl cfg)) \<noteq> Some True)
            \<longrightarrow> result (CachingClient_fetchJson (Some cfg) avail now req dlg cacheGet w eq)
                  = Rejected e)"
  unfolding fetchJson_fetchFirst [OF assms(1) assms(2)]
  using assms(3) by (auto simp: fetchFirstMode_def Let_def isTrue_def)

theorem C2_witness:
  "\<exists>r. result (CachingClient_fetchJson
        (Some \<lparr>ckey = ''a'', cmode = None, defaultCacheControl = None,
               forcedCacheControl = None, cupdate = Some True\<rparr>)
        True 100 \<lparr>inputHeaders = None, initHeaders = None\<rparr>
        \<lparr>delegateFetchJson = (\<lambda>_. Resolved \<lparr>fvalue = JNum 1, fheaders = []\<rparr>),
         delegateFetch = (\<lambda>_. Rejected NetworkError)\<rparr>
        (Resolved (Some \<lparr>key = ''a'', updated = 50, val = JStr ''cached'',
                         headers = [(''etag'', ''x'')],
                         cacheControl = Some (emptyCacheControl\<lparr>maxAge := Some (Secs 120)\<rparr>)\<rparr>))
        CacheWins (=)) = Resolved r
      \<and> resultValue r = Plain (JStr ''cached'') \<and> resultHeaders r = [(''etag'', ''x'')]
      \<and> transport (CachingClient_fetchJson
        (Some \<lparr>ckey = ''a'', cmode = None, defaultCacheControl = None,
               forcedCacheControl = None, cupdate = Some True\<rparr>)
        True 100 \<lparr>inputHeaders = None, initHeaders = None\<rparr>
        \<lparr>delegateFetchJson = (\<lambda>_. Resolved \<lparr>fvalue = JNum 1, fheaders = []\<rparr>),
         delegateFetch = (\<lambda>_. Rejected NetworkError)\<rparr>
        (Resolved (Some \<lparr>key = ''a'', updated = 50, val = JStr ''cached'',
                         headers = [(''etag'', ''x'')],
                         cacheControl = Some (emptyCacheControl\<lparr>maxAge := Some (Secs 120)\<rparr>)\<rparr>))
        CacheWins (=)) = []
      \<and> (\<exists>msg. resultUpdate r = Some (UpdatePromise (Rejected (NoUpdateError msg))))"
proof -
  let ?cfg = "\<lparr>ckey = ''a'', cmode = None, defaultCacheControl = None,
                forcedCacheControl = None, cupdate = Some True\<rparr>"
  let ?c = "\<lparr>key = ''a'', updated = 50, val = JStr ''cached'', headers = [(''etag'', ''x'')],
              cacheControl = Some (emptyCacheControl\<lparr>maxAge := Some (Secs 120)\<rparr>)\<rparr>"
  have a: "\<not> bypassed (Some ?cfg) True"
    by (simp add: bypassed_def)
  have b: "cmode ?cfg = None \<or> cmode ?cfg = Some ModeCacheControl"
    by simp
  have c: "truthy (val ?c)"
    by simp
  have d: "state (cacheState 100 (updated ?c) (cacheControl ?c)
                    (defaultCacheControl ?cfg) (forcedCacheControl ?cfg)) = FRESH"
    by (simp add: cacheState_def effectiveCacheControl_def assignOpt_def assign_def
        laterWins_def emptyCacheControl_def isTrue_def plainState_def)
  from C2_fresh_hit_served_from_cache [OF a b c d] show ?thesis
    by simp
qed

theorem C4_witness:
  "result (CachingClient_fetchJson
        (Some \<lparr>ckey = ''a'', cmode = Some ModeFetchFirst, defaultCacheControl = None,
               forcedCacheControl = None, cupdate = None\<rparr>)
        True 100 \<lparr>inputHeaders = None, initHeaders = None\<rparr>
        \<lparr>delegateFetchJson = (\<lambda>_. Rejected (HttpResponseError 404)),
         delegateFetch = (\<lambda>_. Rejected NetworkError)\<rparr>
        (Resolved (Some \<lparr>key = ''a'', updated = 50, val = JStr ''cached'', headers = [],
                         cacheControl = None\<rparr>))
        CacheWins (=))
     = Resolved (Cached \<lparr>key = ''a'', updated = 50, val = JStr ''cached'', headers = [],
                         cacheControl = None\<rparr> None None)
   \<and> result (CachingClient_fetchJson
        (Some \<lparr>ckey = ''a'', cmode = Some ModeFetchFirst, defaultCacheControl = None,
               forcedCacheControl = None, cupdate = None\<rparr>)
        True 100 \<lparr>inputHeaders = None, initHeaders = None\<rparr>
        \<lparr>delegateFetchJson = (\<lambda>_. Rejected (HttpResponseError 404)),
         delegateFetch = (\<lambda>_. Rejected NetworkError)\<rparr>
        (Rejected (OtherError ''cache'')) CacheWins (=))
     = Rejected (HttpResponseError 404)"
proof -
  let ?cfg = "\<lparr>ckey = ''a'', cmode = Some ModeFetchFirst, defaultCacheControl = None,
                forcedCacheControl = None, cupdate = None\<rparr>"
  let ?req = "\<lparr>inputHeaders = None, initHeaders = None\<rparr>"
  let ?dlg = "\<lparr>delegateFetchJson = (\<lambda>_. Rejected (HttpResponseError 404)),
                delegateFetch = (\<lambda>_. Rejected NetworkError)\<rparr>"
  let ?c = "\<lparr>key = ''a'', updated = 50, val = JStr ''cached'', headers = [],
              cacheControl = None\<rparr>"
  have a: "\<not> bypassed (Some ?cfg) True"
    by (simp add: bypassed_def)
  have b: "cmode ?cfg = Some ModeFetchFirst"
    by simp
  have c: "delegateFetchJson ?dlg (initHeaders ?req) = Rejected (HttpResponseError 404)"
    by simp
  have d: "Resolved (Some ?c) = Resolved (Some ?c)
           \<and> (state (cacheState 100 (updated ?c) (cacheControl ?c)
                        (defaultCacheControl ?cfg) (forcedCacheControl ?cfg)) = FRESH
              \<or> stStaleIfError (cacheState 100 (updated ?c) (cacheControl ?c)
                        (defaultCacheControl ?cfg) (forcedCacheControl ?cfg)) = Some True)"
    by (simp add: cacheState_def effectiveCacheControl_def assignOpt_def
        emptyCacheControl_def isTrue_def plainState_def)
  have e: "(Rejected (OtherError ''cache'') :: CachedObject option outcome) = Resolved None
           \<or> (\<exists>ce. (Rejected (OtherError ''cache'') :: CachedObject option outcome) = Rejected ce)
           \<or> (\<exists>c. (Rejected (OtherError ''cache'') :: CachedObject option outcome)
                      = Resolved (Some c)
                 \<and> state (cacheState 100 (updated c) (cacheControl c)
                        (defaultCacheControl ?cfg) (forcedCacheControl ?cfg)) \<noteq> FRESH
                 \<and> stStaleIfError (cacheState 100 (updated c) (cacheControl c)
                        (defaultCacheControl ?cfg) (forcedCacheControl ?cfg)) \<noteq> Some True)"
    by simp
  note t1 = C4_fetchFirst_failure
    [OF a b c, where cacheGet = "Resolved (Some ?c)" and now = 100 and w = CacheWins
       and eq = "(=)", THEN conjunct1, rule_format, OF d]
  note t2 = C4_fetchFirst_failure
    [OF a b c, where cacheGet = "Rejected (OtherError ''cache'')" and now = 100
       and w = CacheWins and eq = "(=)", THEN conjunct2, rule_format, OF e]
  show ?thesis
    by (rule conjI t1 t2)+
qed

text \<open>
  Claim C3 says that in race mode a stale entry without relaxation that wins the race
  is treated as a miss, so that the caller gets the value and headers of the request,
  whatever \<open>update\<close> is. Without \<open>update\<close> the code returns the result of the request.
  With \<open>update = true\<close> it returns \<open>{value: res, headers: res.headers, update: new
  NoUpdateError(...)}\<close>, where \<open>res\<close> is the whole result of the request: the value
  handed to the caller is the object holding value and headers, not the fetched value,
  and \<open>update\<close> is a bare error object. The branch for a miss, a few lines below,
  returns \<open>f.value\<close> and a rejected promise.
\<close>

theorem C3_stale_race_with_update_wraps_result:
  "cacheState 1000 0 (Some (emptyCacheControl\<lparr>maxAge := Some (Secs 0)\<rparr>)) None None
     = plainState STALE
   \<and> result (CachingClient_fetchJson
        (Some \<lparr>ckey = ''a'', cmode = Some ModeRace, defaultCacheControl = None,
               forcedCacheControl = None, cupdate = Some True\<rparr>)
        True 1000 \<lparr>inputHeaders = None, initHeaders = None\<rparr>
        \<lparr>delegateFetchJson = (\<lambda>_. Resolved \<lparr>fvalue = JStr ''fresh'', fheaders = []\<rparr>),
         delegateFetch = (\<lambda>_. Rejected NetworkError)\<rparr>
        (Resolved (Some \<lparr>key = ''a'', updated = 0, val = JStr ''stale'', headers = [],
                         cacheControl = Some (emptyCacheControl\<lparr>maxAge := Some (Secs 0)\<rparr>)\<rparr>))
        CacheWins (=))
     = Resolved (Fetched (WholeFetched \<lparr>fvalue = JStr ''fresh'', fheaders = []\<rparr>) []
                   (Some (UpdateObject (NoUpdateError ''Cache stale, no update''))))
   \<and> WholeFetched \<lparr>fvalue = JStr ''fresh'', fheaders = []\<rparr> \<noteq> Plain (JStr ''fresh'')
   \<and> result (CachingClient_fetchJson
        (Some \<lparr>ckey = ''a'', cmode = Some ModeRace, defaultCacheControl = None,
               forcedCacheControl = None, cupdate = Some False\<rparr>)
        True 1000 \<lparr>inputHeaders = None, initHeaders = None\<rparr>
        \<lparr>delegateFetchJson = (\<lambda>_. Resolved \<lparr>fvalue = JStr ''fresh'', fheaders = []\<rparr>),
         delegateFetch = (\<lambda>_. Rejected NetworkError)\<rparr>
        (Resolved (Some \<lparr>key = ''a'', updated = 0, val = JStr ''stale'', headers = [],
                         cacheControl = Some (emptyCacheControl\<lparr>maxAge := Some (Secs 0)\<rparr>)\<rparr>))
        CacheWins (=))
     = Resolved (Fetched (Plain (JStr ''fresh'')) [] None)"
  by (simp add: CachingClient_fetchJson_def bypassed_def raceMode_def afterRace_def
      cacheWithState_def plainResult_def withUpdate_def isTrue_def plainState_def
      cacheState_def effectiveCacheControl_def assignOpt_def assign_def laterWins_def
      emptyCacheControl_def Let_def)

end
